theory Spec2Isabelle
  imports Complex_Main "HOL-Library.Word" "HOL-Library.AList"
begin

section \<open>Shared data\<close>

text \<open>
  Python \<^verbatim>\<open>bytes\<close> are lists of 8-bit words, Python \<^verbatim>\<open>int\<close> is \<^typ>\<open>int\<close>,
  Python \<^verbatim>\<open>str\<close> is \<^typ>\<open>string\<close>.
\<close>

type_synonym bytes = "8 word list"

text \<open>\<^verbatim>\<open>PeerAddress(host, port)\<close>: a value, used as dictionary key.\<close>

record peer_address =
  host :: string
  port :: int

section \<open>Connection manager (squeaknode/network/connection\_manager.py)\<close>

text \<open>
  The version message of a connection; \<^verbatim>\<open>_is_duplicate_nonce\<close> reads only its
  \<^verbatim>\<open>nNonce\<close>.
\<close>

record version =
  nNonce :: int

text \<open>
  A peer as the manager sees it: \<^verbatim>\<open>peer.address\<close>, \<^verbatim>\<open>peer.local_version\<close>
  (\<^verbatim>\<open>None\<close> until the local version message exists; a version object is truthy) and
  \<^verbatim>\<open>peer.remote_version\<close>, the value the manager compares with a nonce.
\<close>

record peer =
  address :: peer_address
  local_version :: "version option"
  remote_version :: int

datatype cm_error =
    DuplicatePeerError
  | DuplicateNonceError
  | MissingPeerError
  | AttributeError

text \<open>
  The manager's state: the dictionary \<^verbatim>\<open>self._peers\<close>, kept in insertion order as a
  Python dict is, and \<^verbatim>\<open>self.peers_changed_callback\<close>. The lock serialises the
  calls; a call is one step of the model.
\<close>

record 'cb connection_manager =
  peers_dict :: "(peer_address \<times> peer) list"
  peers_changed_callback :: "'cb option"

text \<open>\<^verbatim>\<open>__init__\<close>\<close>

definition init :: "'cb connection_manager" where
  "init = \<lparr> peers_dict = [], peers_changed_callback = None \<rparr>"

text \<open>\<^verbatim>\<open>peers\<close>: \<^verbatim>\<open>list(self._peers.values())\<close>\<close>

definition peers :: "'cb connection_manager \<Rightarrow> peer list" where
  "peers cm = map snd (peers_dict cm)"

text \<open>\<^verbatim>\<open>has_connection\<close>: \<^verbatim>\<open>address in self._peers\<close>\<close>

definition has_connection :: "'cb connection_manager \<Rightarrow> peer_address \<Rightarrow> bool" where
  "has_connection cm a = (a \<in> set (map fst (peers_dict cm)))"

text \<open>\<^verbatim>\<open>get_peer\<close>: \<^verbatim>\<open>self._peers.get(address)\<close>\<close>

definition get_peer :: "'cb connection_manager \<Rightarrow> peer_address \<Rightarrow> peer option" where
  "get_peer cm a = map_of (peers_dict cm) a"

text \<open>\<^verbatim>\<open>listen_peers_changed\<close>\<close>

definition listen_peers_changed ::
  "'cb connection_manager \<Rightarrow> 'cb option \<Rightarrow> 'cb connection_manager" where
  "listen_peers_changed cm callback = cm\<lparr>peers_changed_callback := callback\<rparr>"

text \<open>
  \<^verbatim>\<open>on_peers_changed\<close>: it logs, and when a callback is registered it evaluates
  \<^verbatim>\<open>self.get_peers()\<close> before calling the callback. The class defines \<^verbatim>\<open>peers\<close>
  and \<^verbatim>\<open>get_peer\<close> but no \<^verbatim>\<open>get_peers\<close>, so that attribute lookup raises
  \<^verbatim>\<open>AttributeError\<close> and the callback is never reached.
\<close>

definition on_peers_changed :: "'cb connection_manager \<Rightarrow> cm_error + unit" where
  "on_peers_changed cm =
     (case peers_changed_callback cm of
        None \<Rightarrow> Inr ()
      | Some callback \<Rightarrow> Inl AttributeError)"

text \<open>
  The loop of \<^verbatim>\<open>_is_duplicate_nonce\<close> over \<^verbatim>\<open>self.peers\<close>: the first
  registered peer with a local version whose nonce equals \<^verbatim>\<open>peer.remote_version\<close>
  returns \<^verbatim>\<open>True\<close>.
\<close>

fun is_duplicate_nonce_loop :: "peer list \<Rightarrow> peer \<Rightarrow> bool" where
  "is_duplicate_nonce_loop [] peer = False"
| "is_duplicate_nonce_loop (other_peer # rest) peer =
     (case local_version other_peer of
        Some v \<Rightarrow>
          if remote_version peer = nNonce v then True
          else is_duplicate_nonce_loop rest peer
      | None \<Rightarrow> is_duplicate_nonce_loop rest peer)"

definition is_duplicate_nonce :: "'cb connection_manager \<Rightarrow> peer \<Rightarrow> bool" where
  "is_duplicate_nonce cm peer = is_duplicate_nonce_loop (peers cm) peer"

text \<open>
  \<^verbatim>\<open>add_peer\<close>. The result pairs what the call returns or raises with the manager's
  state when it does.
\<close>

definition add_peer ::
  "'cb connection_manager \<Rightarrow> peer \<Rightarrow> (cm_error + unit) \<times> 'cb connection_manager" where
  "add_peer cm peer =
     (if is_duplicate_nonce cm peer then (Inl DuplicateNonceError, cm)
      else if has_connection cm (address peer) then (Inl DuplicatePeerError, cm)
      else
        let cm' = cm\<lparr>peers_dict := AList.update (address peer) peer (peers_dict cm)\<rparr>
        in (on_peers_changed cm', cm'))"

text \<open>\<^verbatim>\<open>remove_peer\<close>\<close>

definition remove_peer ::
  "'cb connection_manager \<Rightarrow> peer \<Rightarrow> (cm_error + unit) \<times> 'cb connection_manager" where
  "remove_peer cm peer =
     (if \<not> has_connection cm (address peer) then (Inl MissingPeerError, cm)
      else
        let cm' = cm\<lparr>peers_dict := AList.delete (address peer) (peers_dict cm)\<rparr>
        in (on_peers_changed cm', cm'))"

text \<open>
  A finite sequence of \<^verbatim>\<open>add_peer\<close> and \<^verbatim>\<open>remove_peer\<close> calls. A call that
  raises leaves the manager in the state it had at the raise, and the next call runs
  from there.
\<close>

datatype cm_call = AddPeer peer | RemovePeer peer

fun cm_step :: "'cb connection_manager \<Rightarrow> cm_call \<Rightarrow> 'cb connection_manager" where
  "cm_step cm (AddPeer p) = snd (add_peer cm p)"
| "cm_step cm (RemovePeer p) = snd (remove_peer cm p)"

definition cm_run :: "'cb connection_manager \<Rightarrow> cm_call list \<Rightarrow> 'cb connection_manager" where
  "cm_run cm calls = foldl cm_step cm calls"

text \<open>
  The version-nonce relation of the duplicate check, between two peers: \<open>p\<close> carries as
  remote version the nonce of \<open>q\<close>'s local version.
\<close>

definition echoes_nonce :: "peer \<Rightarrow> peer \<Rightarrow> bool" where
  "echoes_nonce p q =
     (case local_version q of None \<Rightarrow> False | Some v \<Rightarrow> remote_version p = nNonce v)"

text \<open>
  A peer is added and not removed by a sequence of calls when some \<^verbatim>\<open>add_peer\<close> of it
  in the sequence returned without raising, and no later call of the sequence is a
  \<^verbatim>\<open>remove_peer\<close> with a peer of the same address (\<^verbatim>\<open>remove_peer\<close> deletes by
  address).
\<close>

definition added_not_removed :: "'cb connection_manager \<Rightarrow> cm_call list \<Rightarrow> peer \<Rightarrow> bool" where
  "added_not_removed cm0 calls p =
     (\<exists>pre post. calls = pre @ AddPeer p # post
        \<and> fst (add_peer (cm_run cm0 pre) p) = Inr ()
        \<and> (\<forall>q. RemovePeer q \<in> set post \<longrightarrow> address q \<noteq> address p))"

text \<open>The invariant of the manager's state kept by both calls while no callback is registered.\<close>

definition cm_inv :: "'cb connection_manager \<Rightarrow> bool" where
  "cm_inv cm \<longleftrightarrow>
     peers_changed_callback cm = None \<and>
     distinct (map fst (peers_dict cm)) \<and>
     (\<forall>x \<in> set (peers_dict cm). fst x = address (snd x)) \<and>
     sorted_wrt (\<lambda>x y. \<not> echoes_nonce (snd y) (snd x)) (peers_dict cm)"

section \<open>Squeak core (squeaknode/core/squeak\_core.py): data\<close>

text \<open>
  \<^verbatim>\<open>CSqueak\<close> of the squeak library: the attributes the core reads, and
  \<^verbatim>\<open>nTime\<close>, the time a squeak is made at.
\<close>

record squeak =
  nBlockHeight :: int
  hashBlock :: bytes
  paymentPoint :: bytes
  nTime :: int

text \<open>\<^verbatim>\<open>SqueakProfile\<close>: \<^verbatim>\<open>make_squeak\<close> reads only \<^verbatim>\<open>private_key\<close>.\<close>

record squeak_profile =
  private_key :: "bytes option"

text \<open>\<^verbatim>\<open>LightningAddressHostPort\<close>\<close>

record lightning_address_host_port =
  host :: string
  port :: int

text \<open>The answers of the Bitcoin client and of the Lightning client.\<close>

record block_info =
  block_height :: int
  block_hash :: bytes
  block_header :: bytes

record add_invoice_response =
  r_hash :: bytes
  payment_request :: string

record lookup_invoice_response =
  creation_date :: int
  expiry :: int

record pay_req =
  payment_hash :: string
  num_msat :: int
  destination :: string
  timestamp :: int
  expiry :: int

record payment =
  payment_preimage :: bytes
  payment_error :: string

record get_info_response =
  uris :: "string list"

record invoice =
  r_hash :: bytes
  settle_index :: int
  settled :: bool

text \<open>The records of a sale.\<close>

record sent_offer =
  sent_offer_id :: "int option"
  squeak_hash :: bytes
  payment_hash :: bytes
  secret_key :: bytes
  nonce :: bytes
  price_msat :: int
  payment_request :: string
  invoice_time :: int
  invoice_expiry :: int
  peer_address :: peer_address

record offer =
  squeak_hash :: bytes
  nonce :: bytes
  payment_request :: string
  host :: string
  port :: int

record received_offer =
  received_offer_id :: "int option"
  squeak_hash :: bytes
  price_msat :: int
  payment_hash :: bytes
  nonce :: bytes
  payment_point :: bytes
  invoice_timestamp :: int
  invoice_expiry :: int
  payment_request :: string
  destination :: string
  lightning_address :: lightning_address_host_port
  peer_address :: peer_address

record sent_payment =
  sent_payment_id :: "int option"
  created_time_ms :: "int option"
  peer_address :: peer_address
  squeak_hash :: bytes
  payment_hash :: bytes
  secret_key :: bytes
  price_msat :: int
  node_pubkey :: string
  valid :: bool

record received_payment =
  received_payment_id :: "int option"
  created_time_ms :: "int option"
  squeak_hash :: bytes
  payment_hash :: bytes
  price_msat :: int
  settle_index :: int
  peer_address :: peer_address

text \<open>
  What a call of a collaborator raises: a gRPC error with its status code, or another
  exception.
\<close>

datatype status_code =
    OK | CANCELLED | UNKNOWN | INVALID_ARGUMENT | DEADLINE_EXCEEDED | NOT_FOUND
  | ALREADY_EXISTS | PERMISSION_DENIED | RESOURCE_EXHAUSTED | FAILED_PRECONDITION
  | ABORTED | OUT_OF_RANGE | UNIMPLEMENTED | INTERNAL | UNAVAILABLE | DATA_LOSS
  | UNAUTHENTICATED

datatype exn = RpcError status_code | OtherException string

text \<open>
  What an operation of the core raises. The source raises plain \<^verbatim>\<open>Exception\<close>s with
  a message; the constructors carry the names the specification gives them:
  \<^item> \<open>ProfileNotSigning\<close>: "Can't make squeak with a contact profile.";
  \<^item> \<open>OfferHashMismatch\<close>: "Squeak hash in offer ... does not match squeak hash ...",
    with the offer's hash and the squeak's hash;
  \<^item> \<open>PaymentFailed\<close>: "Payment failed with error: ...", with the payment error;
  \<^item> \<open>InvoiceSubscriptionError\<close>;
  \<^item> \<open>ValueError\<close> and \<open>UnicodeDecodeError\<close> of the Python built-ins;
  \<^item> \<open>Raised\<close>: an exception of a collaborator, which the core lets through.
\<close>

datatype error =
    ProfileNotSigning
  | OfferHashMismatch bytes bytes
  | PaymentFailed string
  | InvoiceSubscriptionError
  | ValueError
  | UnicodeDecodeError
  | Raised exn

text \<open>The calls an operation makes to the Bitcoin client and the Lightning client, in order.\<close>

datatype call =
    GetBestBlockInfo
  | AddInvoice bytes int
  | LookupInvoice string
  | DecodePayReq string
  | PayInvoiceSync string
  | GetInfo
  | SubscribeInvoices int

text \<open>
  How the iteration over a gRPC response stream finishes: the stream is exhausted, or
  the iteration raises.
\<close>

datatype stream_end = EndOfStream | StreamRaises exn

text \<open>
  The surroundings of one run of an operation: what the built-ins and the squeak library
  compute, what the clock and the random generator give, and what the two clients answer.
  The functions of the squeak library (\<^verbatim>\<open>CSigningKey\<close>, \<^verbatim>\<open>MakeSqueakFromStr\<close>,
  \<^verbatim>\<open>payment_point_bytes_from_scalar_bytes\<close>) are parameters that return or raise:
  \<^verbatim>\<open>CSigningKey\<close> raises on a string that is not a key, and
  \<^verbatim>\<open>payment_point_bytes_from_scalar_bytes\<close> on a scalar that has no point, as the scalar
  0. \<^verbatim>\<open>get_hash\<close> is a parameter. A call of a client answers or raises.
  A response stream is the finite sequence of invoices it delivers and the way it ends.
\<close>

record 'key env =
  utf8_decode :: "bytes \<Rightarrow> string option"
  int_of_str :: "string \<Rightarrow> int option"
  CSigningKey :: "string \<Rightarrow> exn + 'key"
  MakeSqueakFromStr ::
    "'key \<Rightarrow> string \<Rightarrow> int \<Rightarrow> bytes \<Rightarrow> int \<Rightarrow> bytes option \<Rightarrow> exn + squeak \<times> bytes"
  payment_point_bytes_from_scalar_bytes :: "bytes \<Rightarrow> exn + bytes"
  get_hash :: "squeak \<Rightarrow> bytes"
  time_time :: real
  generate_tweak :: bytes
  get_best_block_info :: "exn + block_info"
  add_invoice :: "bytes \<Rightarrow> int \<Rightarrow> exn + add_invoice_response"
  lookup_invoice :: "string \<Rightarrow> exn + lookup_invoice_response"
  decode_pay_req :: "string \<Rightarrow> exn + pay_req"
  pay_invoice_sync :: "string \<Rightarrow> exn + payment"
  get_info :: "exn + get_info_response"
  subscribe_invoices :: "int \<Rightarrow> invoice list \<times> stream_end"

section \<open>Python built-ins\<close>

text \<open>\<^verbatim>\<open>int(x)\<close> of a float: truncation towards zero.\<close>

definition int_of_float :: "real \<Rightarrow> int" where
  "int_of_float x = (if 0 \<le> x then \<lfloor>x\<rfloor> else \<lceil>x\<rceil>)"

text \<open>\<^verbatim>\<open>bytes.hex()\<close>: two lower-case hexadecimal digits per byte.\<close>

definition hex_digit :: "nat \<Rightarrow> char" where
  "hex_digit n = ''0123456789abcdef'' ! n"

definition hex :: "bytes \<Rightarrow> string" where
  "hex bs = concat (map (\<lambda>b. [hex_digit (unat b div 16), hex_digit (unat b mod 16)]) bs)"

text \<open>
  \<^verbatim>\<open>bytes.fromhex(s)\<close>: ASCII whitespace is skipped before each byte; a byte is two
  hexadecimal digits of either case, next to each other; anything else is a
  \<^verbatim>\<open>ValueError\<close> (\<open>None\<close>).
\<close>

definition hex_value :: "char \<Rightarrow> nat option" where
  "hex_value c =
     (let n = of_char c :: nat in
      if 48 \<le> n \<and> n \<le> 57 then Some (n - 48)
      else if 97 \<le> n \<and> n \<le> 102 then Some (n - 87)
      else if 65 \<le> n \<and> n \<le> 70 then Some (n - 55)
      else None)"

definition is_space :: "char \<Rightarrow> bool" where
  "is_space c = (of_char c \<in> {9, 10, 11, 12, 13, 32 :: nat})"

fun fromhex :: "string \<Rightarrow> bytes option" where
  "fromhex [] = Some []"
| "fromhex [c] = (if is_space c then Some [] else None)"
| "fromhex (c # d # cs) =
     (if is_space c then fromhex (d # cs)
      else
        (case (hex_value c, hex_value d) of
           (Some hi, Some lo) \<Rightarrow>
             (case fromhex cs of
                None \<Rightarrow> None
              | Some bs \<Rightarrow> Some (word_of_nat (16 * hi + lo) # bs))
         | _ \<Rightarrow> None))"

text \<open>\<^verbatim>\<open>s.split(sep)\<close> for a separator of one character.\<close>

fun split :: "string \<Rightarrow> char \<Rightarrow> string list" where
  "split [] sep = [[]]"
| "split (c # cs) sep =
     (if c = sep then [] # split cs sep
      else
        (case split cs sep of
           [] \<Rightarrow> [[c]]
         | part # parts \<Rightarrow> (c # part) # parts))"

section \<open>Scalar tweaks (squeaknode/core/util.py)\<close>

text \<open>
  Modelled from the spec: \<^verbatim>\<open>add_tweak\<close> and \<^verbatim>\<open>subtract_tweak\<close> of
  squeaknode/core/util.py, which is not among the sources. The specification gives them
  as \<^verbatim>\<open>tweak_add\<close>, scalar addition modulo the curve order, and \<^verbatim>\<open>tweak_sub\<close>,
  scalar subtraction, on 32-byte big-endian scalars of the group of secp256k1.
\<close>

definition curve_order :: int where
  "curve_order =
     115792089237316195423570985008687907852837564279074904382605163141518161494337"

text \<open>\<^verbatim>\<open>int.from_bytes(bs, 'big')\<close> and \<^verbatim>\<open>x.to_bytes(n, 'big')\<close>.\<close>

definition bytes_to_int :: "bytes \<Rightarrow> int" where
  "bytes_to_int bs = foldl (\<lambda>acc b. acc * 256 + uint b) 0 bs"

fun int_to_bytes :: "nat \<Rightarrow> int \<Rightarrow> bytes" where
  "int_to_bytes 0 x = []"
| "int_to_bytes (Suc n) x = int_to_bytes n (x div 256) @ [word_of_int (x mod 256)]"

definition add_tweak :: "bytes \<Rightarrow> bytes \<Rightarrow> bytes" where
  "add_tweak n tweak =
     int_to_bytes 32 ((bytes_to_int n + bytes_to_int tweak) mod curve_order)"

definition subtract_tweak :: "bytes \<Rightarrow> bytes \<Rightarrow> bytes" where
  "subtract_tweak n tweak =
     int_to_bytes 32 ((bytes_to_int n - bytes_to_int tweak) mod curve_order)"

text \<open>An in-range scalar: 32 bytes whose value is below the curve order.\<close>

definition in_range :: "bytes \<Rightarrow> bool" where
  "in_range a = (length a = 32 \<and> bytes_to_int a < curve_order)"

section \<open>Squeak core: operations\<close>

text \<open>
  Every operation returns what it returns or raises, paired with the calls it made to the
  two clients, in order. A local variable of the source whose name is also the name of a
  field carries a prime here.
\<close>

text \<open>
  \<^verbatim>\<open>make_squeak\<close>: the signing key is built from the decoded private key before the
  Bitcoin client is called.
\<close>

definition make_squeak ::
  "'key env \<Rightarrow> squeak_profile \<Rightarrow> string \<Rightarrow> bytes option
     \<Rightarrow> (error + squeak \<times> bytes) \<times> call list" where
  "make_squeak e signing_profile content_str replyto_hash =
     (case private_key signing_profile of
        None \<Rightarrow> (Inl ProfileNotSigning, [])
      | Some key_bytes \<Rightarrow>
          (case utf8_decode e key_bytes of
             None \<Rightarrow> (Inl UnicodeDecodeError, [])
           | Some signing_key_str \<Rightarrow>
               (case CSigningKey e signing_key_str of
                  Inl x \<Rightarrow> (Inl (Raised x), [])
                | Inr signing_key \<Rightarrow>
                    (case get_best_block_info e of
                       Inl x \<Rightarrow> (Inl (Raised x), [GetBestBlockInfo])
                     | Inr block_info \<Rightarrow>
                         let block_height' = block_height block_info;
                             block_hash' = block_hash block_info;
                             timestamp' = int_of_float (time_time e)
                         in
                           (case MakeSqueakFromStr e signing_key content_str block_height'
                                   block_hash' timestamp' replyto_hash of
                              Inl x \<Rightarrow> (Inl (Raised x), [GetBestBlockInfo])
                            | Inr made \<Rightarrow> (Inr made, [GetBestBlockInfo]))))))"

text \<open>\<^verbatim>\<open>create_offer\<close>\<close>

definition create_offer ::
  "'key env \<Rightarrow> squeak \<Rightarrow> bytes \<Rightarrow> peer_address \<Rightarrow> int \<Rightarrow> (error + sent_offer) \<times> call list" where
  "create_offer e squeak secret_key' peer_address' price_msat' =
     (let squeak_hash' = get_hash e squeak;
          nonce' = generate_tweak e;
          preimage = add_tweak secret_key' nonce'
      in
        (case add_invoice e preimage price_msat' of
           Inl x \<Rightarrow> (Inl (Raised x), [AddInvoice preimage price_msat'])
         | Inr add_invoice_response \<Rightarrow>
             let payment_hash' = add_invoice_response.r_hash add_invoice_response;
                 invoice_payment_request =
                   add_invoice_response.payment_request add_invoice_response
             in
               (case lookup_invoice e (hex payment_hash') of
                  Inl x \<Rightarrow>
                    (Inl (Raised x),
                     [AddInvoice preimage price_msat', LookupInvoice (hex payment_hash')])
                | Inr lookup_invoice_response \<Rightarrow>
                    let invoice_time' = creation_date lookup_invoice_response;
                        invoice_expiry' = lookup_invoice_response.expiry lookup_invoice_response
                    in
                      (Inr \<lparr> sent_offer_id = None,
                              sent_offer.squeak_hash = squeak_hash',
                              sent_offer.payment_hash = payment_hash',
                              sent_offer.secret_key = preimage,
                              sent_offer.nonce = nonce',
                              sent_offer.price_msat = price_msat',
                              sent_offer.payment_request = invoice_payment_request,
                              sent_offer.invoice_time = invoice_time',
                              sent_offer.invoice_expiry = invoice_expiry',
                              sent_offer.peer_address = peer_address' \<rparr>,
                       [AddInvoice preimage price_msat', LookupInvoice (hex payment_hash')]))))"

text \<open>
  \<^verbatim>\<open>get_lnd_external_address\<close>: the loop body returns in its first iteration, so only
  the first URI is read; the two tuple unpackings and \<^verbatim>\<open>int(port_str)\<close> raise
  \<^verbatim>\<open>ValueError\<close>.
\<close>

definition get_lnd_external_address ::
  "'key env \<Rightarrow> (error + lightning_address_host_port option) \<times> call list" where
  "get_lnd_external_address e =
     (case get_info e of
        Inl x \<Rightarrow> (Inl (Raised x), [GetInfo])
      | Inr info \<Rightarrow>
          (case uris info of
             [] \<Rightarrow> (Inr None, [GetInfo])
           | uri # _ \<Rightarrow>
               (case split uri (CHR ''@'') of
                  [pubkey, address'] \<Rightarrow>
                    (case split address' (CHR '':'') of
                       [host', port_str] \<Rightarrow>
                         (case int_of_str e port_str of
                            None \<Rightarrow> (Inl ValueError, [GetInfo])
                          | Some port' \<Rightarrow>
                              (Inr (Some \<lparr> lightning_address_host_port.host = host',
                                           lightning_address_host_port.port = port' \<rparr>),
                               [GetInfo]))
                     | _ \<Rightarrow> (Inl ValueError, [GetInfo]))
                | _ \<Rightarrow> (Inl ValueError, [GetInfo]))))"

text \<open>\<^verbatim>\<open>package_offer\<close>\<close>

definition package_offer ::
  "'key env \<Rightarrow> sent_offer \<Rightarrow> lightning_address_host_port option
     \<Rightarrow> (error + offer) \<times> call list" where
  "package_offer e sent_offer lnd_external_address =
     (case (case lnd_external_address of
              None \<Rightarrow> get_lnd_external_address e
            | Some a \<Rightarrow> (Inr (Some a), [])) of
        (Inl x, calls) \<Rightarrow> (Inl x, calls)
      | (Inr lnd_external_address, calls) \<Rightarrow>
          (Inr \<lparr> offer.squeak_hash = sent_offer.squeak_hash sent_offer,
                  offer.nonce = sent_offer.nonce sent_offer,
                  offer.payment_request = sent_offer.payment_request sent_offer,
                  offer.host =
                    (case lnd_external_address of
                       Some a \<Rightarrow> lightning_address_host_port.host a
                     | None \<Rightarrow> []),
                  offer.port =
                    (case lnd_external_address of
                       Some a \<Rightarrow> lightning_address_host_port.port a
                     | None \<Rightarrow> 0) \<rparr>,
           calls))"

text \<open>\<^verbatim>\<open>unpack_offer\<close>\<close>

definition unpack_offer ::
  "'key env \<Rightarrow> squeak \<Rightarrow> offer \<Rightarrow> peer_address \<Rightarrow> (error + received_offer) \<times> call list" where
  "unpack_offer e squeak offer peer_address' =
     (let squeak_hash' = get_hash e squeak in
      if squeak_hash' \<noteq> offer.squeak_hash offer
      then (Inl (OfferHashMismatch (offer.squeak_hash offer) squeak_hash'), [])
      else
        (case decode_pay_req e (offer.payment_request offer) of
           Inl x \<Rightarrow> (Inl (Raised x), [DecodePayReq (offer.payment_request offer)])
         | Inr pay_req \<Rightarrow>
             let squeak_payment_point = paymentPoint squeak in
             (case fromhex (pay_req.payment_hash pay_req) of
                None \<Rightarrow> (Inl ValueError, [DecodePayReq (offer.payment_request offer)])
              | Some payment_hash' \<Rightarrow>
                  let price_msat' = num_msat pay_req;
                      destination' = pay_req.destination pay_req;
                      invoice_timestamp' = timestamp pay_req;
                      invoice_expiry' = pay_req.expiry pay_req;
                      lightning_address' =
                        \<lparr> lightning_address_host_port.host =
                            (if offer.host offer \<noteq> [] then offer.host offer
                             else peer_address.host peer_address'),
                          lightning_address_host_port.port = offer.port offer \<rparr>
                  in
                    (Inr \<lparr> received_offer_id = None,
                            received_offer.squeak_hash = squeak_hash',
                            received_offer.price_msat = price_msat',
                            received_offer.payment_hash = payment_hash',
                            received_offer.nonce = offer.nonce offer,
                            received_offer.payment_point = squeak_payment_point,
                            received_offer.invoice_timestamp = invoice_timestamp',
                            received_offer.invoice_expiry = invoice_expiry',
                            received_offer.payment_request = offer.payment_request offer,
                            received_offer.destination = destination',
                            received_offer.lightning_address = lightning_address',
                            received_offer.peer_address = peer_address' \<rparr>,
                     [DecodePayReq (offer.payment_request offer)]))))"

text \<open>
  \<^verbatim>\<open>pay_offer\<close>: the point of the recovered key is computed after the invoice is
  paid, with no guard, so an exception of the library there leaves \<^verbatim>\<open>pay_offer\<close>
  with the payment made and no record of it.
\<close>

definition pay_offer ::
  "'key env \<Rightarrow> received_offer \<Rightarrow> (error + sent_payment) \<times> call list" where
  "pay_offer e received_offer =
     (case pay_invoice_sync e (received_offer.payment_request received_offer) of
        Inl x \<Rightarrow>
          (Inl (Raised x), [PayInvoiceSync (received_offer.payment_request received_offer)])
      | Inr payment \<Rightarrow>
          let preimage = payment_preimage payment in
          if preimage = []
          then (Inl (PaymentFailed (payment_error payment)),
                [PayInvoiceSync (received_offer.payment_request received_offer)])
          else
            let nonce' = received_offer.nonce received_offer;
                secret_key' = subtract_tweak preimage nonce'
            in
              (case payment_point_bytes_from_scalar_bytes e secret_key' of
                 Inl x \<Rightarrow>
                   (Inl (Raised x),
                    [PayInvoiceSync (received_offer.payment_request received_offer)])
               | Inr point \<Rightarrow>
                   let valid' = (point = received_offer.payment_point received_offer);
                       peer_address' =
                         \<lparr> peer_address.host =
                             peer_address.host (received_offer.peer_address received_offer),
                           peer_address.port =
                             peer_address.port (received_offer.peer_address received_offer) \<rparr>
                   in
                     (Inr \<lparr> sent_payment_id = None,
                             sent_payment.created_time_ms = None,
                             sent_payment.peer_address = peer_address',
                             sent_payment.squeak_hash = received_offer.squeak_hash received_offer,
                             sent_payment.payment_hash = received_offer.payment_hash received_offer,
                             sent_payment.secret_key = secret_key',
                             sent_payment.price_msat = received_offer.price_msat received_offer,
                             sent_payment.node_pubkey = received_offer.destination received_offer,
                             sent_payment.valid = valid' \<rparr>,
                      [PayInvoiceSync (received_offer.payment_request received_offer)])))"

text \<open>
  The generator \<^verbatim>\<open>get_payment_stream\<close> of \<^verbatim>\<open>get_received_payments\<close>, run until
  it finishes: the payments it yields, in order, and how it finishes (\<open>None\<close>: it
  returns; \<open>Some\<close>: it raises). The \<^verbatim>\<open>except\<close> clause catches \<^verbatim>\<open>grpc.RpcError\<close>
  only.
\<close>

fun get_payment_stream ::
  "(bytes \<Rightarrow> sent_offer) \<Rightarrow> invoice list \<Rightarrow> stream_end
     \<Rightarrow> received_payment list \<times> error option" where
  "get_payment_stream get_sent_offer_fn [] EndOfStream = ([], None)"
| "get_payment_stream get_sent_offer_fn [] (StreamRaises (RpcError code)) =
     ([], if code \<noteq> CANCELLED then Some InvoiceSubscriptionError else None)"
| "get_payment_stream get_sent_offer_fn [] (StreamRaises (OtherException msg)) =
     ([], Some (Raised (OtherException msg)))"
| "get_payment_stream get_sent_offer_fn (invoice # invoice_stream) stream_end =
     (if settled invoice
      then
        let payment_hash' = invoice.r_hash invoice;
            settle_index' = invoice.settle_index invoice;
            sent_offer = get_sent_offer_fn payment_hash';
            yielded =
              \<lparr> received_payment_id = None,
                received_payment.created_time_ms = None,
                received_payment.squeak_hash = sent_offer.squeak_hash sent_offer,
                received_payment.payment_hash = sent_offer.payment_hash sent_offer,
                received_payment.price_msat = sent_offer.price_msat sent_offer,
                received_payment.settle_index = settle_index',
                received_payment.peer_address = sent_offer.peer_address sent_offer \<rparr>;
            (payments, outcome) = get_payment_stream get_sent_offer_fn invoice_stream stream_end
        in (yielded # payments, outcome)
      else get_payment_stream get_sent_offer_fn invoice_stream stream_end)"

text \<open>
  \<^verbatim>\<open>get_received_payments\<close>: it subscribes, and the result stream is the generator
  over the subscription.
\<close>

definition get_received_payments ::
  "'key env \<Rightarrow> int \<Rightarrow> (bytes \<Rightarrow> sent_offer)
     \<Rightarrow> (received_payment list \<times> error option) \<times> call list" where
  "get_received_payments e latest_settle_index get_sent_offer_fn =
     (let (invoice_stream, stream_end) = subscribe_invoices e latest_settle_index
      in (get_payment_stream get_sent_offer_fn invoice_stream stream_end,
          [SubscribeInvoices latest_settle_index]))"

section \<open>The scenarios of the specification\<close>

text \<open>
  The happy-path sale: the secret key is the byte 1 followed by 31 zero bytes, the nonce
  the byte 2 followed by 31 zero bytes, the preimage their sum, and the price 1000 msat.
\<close>

definition scenario_secret_key :: bytes where
  "scenario_secret_key =
     [1, 0, 0, 0, 0, 0, 0, 0, 0, 0, 0, 0, 0, 0, 0, 0,
      0, 0, 0, 0, 0, 0, 0, 0, 0, 0, 0, 0, 0, 0, 0, 0]"

definition scenario_nonce :: bytes where
  "scenario_nonce =
     [2, 0, 0, 0, 0, 0, 0, 0, 0, 0, 0, 0, 0, 0, 0, 0,
      0, 0, 0, 0, 0, 0, 0, 0, 0, 0, 0, 0, 0, 0, 0, 0]"

definition scenario_preimage :: bytes where
  "scenario_preimage =
     [3, 0, 0, 0, 0, 0, 0, 0, 0, 0, 0, 0, 0, 0, 0, 0,
      0, 0, 0, 0, 0, 0, 0, 0, 0, 0, 0, 0, 0, 0, 0, 0]"

text \<open>The scalar 0, which has no point.\<close>

definition scenario_zero_scalar :: bytes where
  "scenario_zero_scalar =
     [0, 0, 0, 0, 0, 0, 0, 0, 0, 0, 0, 0, 0, 0, 0, 0,
      0, 0, 0, 0, 0, 0, 0, 0, 0, 0, 0, 0, 0, 0, 0, 0]"

text \<open>
  The private key of the scenario's signing profile: the ASCII bytes of the key string
  KwDiBf89QgGbjEhKnhXJuH7LrciVrZi3qYjgd9M7rFU73sVHnoWn.
\<close>

definition scenario_private_key :: bytes where
  "scenario_private_key =
     [75, 119, 68, 105, 66, 102, 56, 57, 81, 103, 71, 98, 106, 69, 104, 75, 110, 104,
      88, 74, 117, 72, 55, 76, 114, 99, 105, 86, 114, 90, 105, 51, 113, 89, 106, 103,
      100, 57, 77, 55, 114, 70, 85, 55, 51, 115, 86, 72, 110, 111, 87, 110]"

text \<open>
  A squeak of the scenario, with stand-ins for the library: the point of a scalar other
  than 0 is the scalar behind the byte 2, the hash of a squeak is its block hash, the one
  key string that is a key is the scenario's, and a squeak is made with the height, hash
  and time it is given.
\<close>

definition scenario_squeak :: squeak where
  "scenario_squeak =
     \<lparr> nBlockHeight = 700000, hashBlock = [171, 205],
       paymentPoint = 2 # scenario_secret_key, nTime = 1600000000 \<rparr>"

definition scenario_seller_address :: peer_address where
  "scenario_seller_address = \<lparr> peer_address.host = ''seller.example'', peer_address.port = 8774 \<rparr>"

definition scenario_buyer_address :: peer_address where
  "scenario_buyer_address = \<lparr> peer_address.host = ''buyer.example'', peer_address.port = 8774 \<rparr>"

definition scenario_env :: "string env" where
  "scenario_env =
     \<lparr> utf8_decode =
         (\<lambda>bs. if bs = scenario_private_key
               then Some ''KwDiBf89QgGbjEhKnhXJuH7LrciVrZi3qYjgd9M7rFU73sVHnoWn''
               else if bs = [75, 120] then Some ''Kx'' else None),
       int_of_str = (\<lambda>s. if s = ''9735'' then Some 9735 else None),
       CSigningKey =
         (\<lambda>s. if s = ''KwDiBf89QgGbjEhKnhXJuH7LrciVrZi3qYjgd9M7rFU73sVHnoWn'' then Inr s
              else Inl (OtherException ''Base58ChecksumError'')),
       MakeSqueakFromStr =
         (\<lambda>key content height hash time reply.
            Inr (\<lparr> nBlockHeight = height, hashBlock = hash,
                   paymentPoint = 2 # scenario_secret_key, nTime = time \<rparr>,
                 scenario_secret_key)),
       payment_point_bytes_from_scalar_bytes =
         (\<lambda>s. if s = scenario_zero_scalar then Inl (OtherException ''scalar 0 has no point'')
              else Inr (2 # s)),
       get_hash = hashBlock,
       time_time = 1600000000.75,
       generate_tweak = scenario_nonce,
       get_best_block_info =
         Inr \<lparr> block_height = 700000, block_hash = [171, 205], block_header = [] \<rparr>,
       add_invoice =
         (\<lambda>preimage amount.
            Inr \<lparr> add_invoice_response.r_hash = [205],
                  add_invoice_response.payment_request = ''lnbc1'' \<rparr>),
       lookup_invoice =
         (\<lambda>h. Inr \<lparr> creation_date = 1600000000, lookup_invoice_response.expiry = 3600 \<rparr>),
       decode_pay_req =
         (\<lambda>pr. Inr \<lparr> pay_req.payment_hash = ''cd'', num_msat = 1000,
                       pay_req.destination = ''02aa'', timestamp = 1600000000,
                       pay_req.expiry = 3600 \<rparr>),
       pay_invoice_sync =
         (\<lambda>pr. Inr \<lparr> payment_preimage = scenario_preimage, payment_error = [] \<rparr>),
       get_info = Inr \<lparr> uris = [''02aa@lnd.example:9735''] \<rparr>,
       subscribe_invoices =
         (\<lambda>i. ([\<lparr> invoice.r_hash = [205], invoice.settle_index = 43, settled = True \<rparr>,
                 \<lparr> invoice.r_hash = [206], invoice.settle_index = 0, settled = False \<rparr>,
                 \<lparr> invoice.r_hash = [205], invoice.settle_index = 44, settled = True \<rparr>],
                StreamRaises (RpcError CANCELLED))) \<rparr>"

definition scenario_sent_offer :: sent_offer where
  "scenario_sent_offer =
     \<lparr> sent_offer_id = None,
       sent_offer.squeak_hash = [171, 205],
       sent_offer.payment_hash = [205],
       sent_offer.secret_key = scenario_preimage,
       sent_offer.nonce = scenario_nonce,
       sent_offer.price_msat = 1000,
       sent_offer.payment_request = ''lnbc1'',
       sent_offer.invoice_time = 1600000000,
       sent_offer.invoice_expiry = 3600,
       sent_offer.peer_address = scenario_buyer_address \<rparr>"

definition scenario_offer :: offer where
  "scenario_offer =
     \<lparr> offer.squeak_hash = [171, 205],
       offer.nonce = scenario_nonce,
       offer.payment_request = ''lnbc1'',
       offer.host = ''lnd.example'',
       offer.port = 9735 \<rparr>"

definition scenario_received_offer :: received_offer where
  "scenario_received_offer =
     \<lparr> received_offer_id = None,
       received_offer.squeak_hash = [171, 205],
       received_offer.price_msat = 1000,
       received_offer.payment_hash = [205],
       received_offer.nonce = scenario_nonce,
       received_offer.payment_point = 2 # scenario_secret_key,
       received_offer.invoice_timestamp = 1600000000,
       received_offer.invoice_expiry = 3600,
       received_offer.payment_request = ''lnbc1'',
       received_offer.destination = ''02aa'',
       received_offer.lightning_address =
         \<lparr> lightning_address_host_port.host = ''lnd.example'',
           lightning_address_host_port.port = 9735 \<rparr>,
       received_offer.peer_address = scenario_seller_address \<rparr>"

section \<open>Sent-offers verifier (squeaknode/node/sent\_offers\_verifier.py)\<close>

definition LND_CONNECT_RETRY_S :: nat where
  "LND_CONNECT_RETRY_S = 10"

text \<open>
  The row \<^verbatim>\<open>get_sent_offer_by_preimage_hash\<close> returns, with the attributes
  \<^verbatim>\<open>_record_payment\<close> reads, and the \<^verbatim>\<open>ReceivedPayment\<close> of
  squeaknode.server.received\_payment that it builds.
\<close>

record sent_offer_row =
  squeak_hash :: bytes
  preimage_hash :: string
  price_msat :: int

record server_received_payment =
  received_payment_id :: "int option"
  created :: "int option"
  squeak_hash :: bytes
  preimage_hash :: string
  price_msat :: int
  settle_index :: int

text \<open>
  What the worker has done so far: the rows it has inserted, in order, the number of
  subscriptions it has opened, and the seconds it has spent in \<^verbatim>\<open>time.sleep\<close>.
\<close>

record verifier_state =
  inserted :: "server_received_payment list"
  subscriptions :: nat
  slept_s :: nat

text \<open>
  What the worker's collaborators do: the storage (\<^verbatim>\<open>squeak_db\<close>) answers or raises,
  and the Lightning client gives, for each subscription the worker opens, the invoices it
  delivers and the way it ends. The worker reads nothing else: it has no stop flag, no
  event and no handle on the subscription.
\<close>

record verifier_env =
  db_get_latest_settle_index :: "verifier_state \<Rightarrow> exn + int option"
  db_get_sent_offer_by_preimage_hash :: "string \<Rightarrow> exn + sent_offer_row option"
  db_insert_received_payment :: "server_received_payment \<Rightarrow> exn option"
  lnd_subscribe_invoices :: "nat \<Rightarrow> int \<Rightarrow> invoice list \<times> stream_end"

text \<open>
  \<^verbatim>\<open>_record_payment\<close>: a lookup that returns \<^verbatim>\<open>None\<close> makes the attribute access
  raise.
\<close>

definition record_payment ::
  "verifier_env \<Rightarrow> verifier_state \<Rightarrow> string \<Rightarrow> int \<Rightarrow> exn + verifier_state" where
  "record_payment e st preimage_hash' settle_index' =
     (case db_get_sent_offer_by_preimage_hash e preimage_hash' of
        Inl x \<Rightarrow> Inl x
      | Inr None \<Rightarrow> Inl (OtherException ''AttributeError'')
      | Inr (Some sent_offer) \<Rightarrow>
          let received_payment =
                \<lparr> server_received_payment.received_payment_id = None,
                  created = None,
                  server_received_payment.squeak_hash = sent_offer_row.squeak_hash sent_offer,
                  server_received_payment.preimage_hash = sent_offer_row.preimage_hash sent_offer,
                  server_received_payment.price_msat = sent_offer_row.price_msat sent_offer,
                  server_received_payment.settle_index = settle_index' \<rparr>
          in
            (case db_insert_received_payment e received_payment of
               Some x \<Rightarrow> Inl x
             | None \<Rightarrow> Inr (st\<lparr>inserted := inserted st @ [received_payment]\<rparr>)))"

text \<open>\<^verbatim>\<open>verify_sent_offer\<close>\<close>

definition verify_sent_offer ::
  "verifier_env \<Rightarrow> verifier_state \<Rightarrow> invoice \<Rightarrow> exn + verifier_state" where
  "verify_sent_offer e st invoice =
     (if settled invoice
      then
        let preimage_hash' = hex (invoice.r_hash invoice);
            settle_index' = invoice.settle_index invoice
        in record_payment e st preimage_hash' settle_index'
      else Inr st)"

text \<open>
  The \<^verbatim>\<open>for\<close> loop of \<^verbatim>\<open>try_processing\<close> over the subscription: the state it
  reaches, and whether it was left by an exception, of the stream or of
  \<^verbatim>\<open>verify_sent_offer\<close>.
\<close>

fun process_invoices ::
  "verifier_env \<Rightarrow> verifier_state \<Rightarrow> invoice list \<Rightarrow> stream_end \<Rightarrow> verifier_state \<times> bool" where
  "process_invoices e st [] EndOfStream = (st, False)"
| "process_invoices e st [] (StreamRaises x) = (st, True)"
| "process_invoices e st (invoice # invoice_stream) stream_end =
     (case verify_sent_offer e st invoice of
        Inl x \<Rightarrow> (st, True)
      | Inr st' \<Rightarrow> process_invoices e st' invoice_stream stream_end)"

text \<open>
  \<^verbatim>\<open>try_processing\<close>: the read of the latest settle index is outside the \<^verbatim>\<open>try\<close>,
  so its exception leaves the function; the bare \<^verbatim>\<open>except\<close> catches every exception
  of the loop, sleeps \<^verbatim>\<open>LND_CONNECT_RETRY_S\<close> seconds and lets the function return.
\<close>

definition try_processing :: "verifier_env \<Rightarrow> verifier_state \<Rightarrow> exn + verifier_state" where
  "try_processing e st =
     (case db_get_latest_settle_index e st of
        Inl x \<Rightarrow> Inl x
      | Inr answer \<Rightarrow>
          let latest_settle_index = (case answer of None \<Rightarrow> 0 | Some i \<Rightarrow> i);
              (invoice_stream, stream_end) =
                lnd_subscribe_invoices e (subscriptions st) latest_settle_index;
              (st', raised) =
                process_invoices e (st\<lparr>subscriptions := Suc (subscriptions st)\<rparr>)
                  invoice_stream stream_end
          in
            if raised then Inr (st'\<lparr>slept_s := slept_s st' + LND_CONNECT_RETRY_S\<rparr>)
            else Inr st')"

text \<open>
  \<^verbatim>\<open>process_subscribed_invoices\<close>: \<^verbatim>\<open>while True\<close> around \<^verbatim>\<open>try_processing\<close>. The
  loop has no exit of its own; it is left only by an exception, returned here with the
  state at the raise. \<open>None\<close> is the loop that never returns.
\<close>

partial_function (option) process_subscribed_invoices ::
  "verifier_env \<Rightarrow> verifier_state \<Rightarrow> (exn \<times> verifier_state) option" where
  "process_subscribed_invoices e st =
     (case try_processing e st of
        Inl x \<Rightarrow> Some (x, st)
      | Inr st' \<Rightarrow> process_subscribed_invoices e st')"

text \<open>
  A stop requested from outside can reach the worker only as the cancellation of its
  subscriptions: storage that holds no settle index, and a Lightning client whose every
  subscription ends at once with the gRPC error of a cancellation.
\<close>

definition cancelled_env :: verifier_env where
  "cancelled_env =
     \<lparr> db_get_latest_settle_index = (\<lambda>st. Inr None),
       db_get_sent_offer_by_preimage_hash = (\<lambda>h. Inr None),
       db_insert_received_payment = (\<lambda>p. None),
       lnd_subscribe_invoices = (\<lambda>k i. ([], StreamRaises (RpcError CANCELLED))) \<rparr>"

section \<open>Connection manager: properties\<close>

lemma is_duplicate_nonce_loop_iff:
  "is_duplicate_nonce_loop ps p = (\<exists>q \<in> set ps. echoes_nonce p q)"
  by (induction ps) (auto simp: echoes_nonce_def split: option.splits)

lemma is_duplicate_nonce_iff:
  "is_duplicate_nonce cm p = (\<exists>q \<in> set (peers cm). echoes_nonce p q)"
  by (simp add: is_duplicate_nonce_def is_duplicate_nonce_loop_iff)

lemma update_fresh: "k \<notin> fst ` set al \<Longrightarrow> AList.update k v al = al @ [(k, v)]"
  by (induction al) auto

lemma add_peer_duplicate_nonce:
  "is_duplicate_nonce cm p \<Longrightarrow> add_peer cm p = (Inl DuplicateNonceError, cm)"
  by (simp add: add_peer_def)

lemma add_peer_duplicate_peer:
  "\<not> is_duplicate_nonce cm p \<Longrightarrow> has_connection cm (address p) \<Longrightarrow>
   add_peer cm p = (Inl DuplicatePeerError, cm)"
  by (simp add: add_peer_def)

lemma add_peer_inserts:
  "\<not> is_duplicate_nonce cm p \<Longrightarrow> \<not> has_connection cm (address p) \<Longrightarrow>
   add_peer cm p =
     (on_peers_changed (cm\<lparr>peers_dict := peers_dict cm @ [(address p, p)]\<rparr>),
      cm\<lparr>peers_dict := peers_dict cm @ [(address p, p)]\<rparr>)"
  by (simp add: add_peer_def has_connection_def update_fresh Let_def)

lemma on_peers_changed_not_duplicate:
  "on_peers_changed cm \<noteq> Inl DuplicateNonceError" "on_peers_changed cm \<noteq> Inl DuplicatePeerError"
  "on_peers_changed cm \<noteq> Inl MissingPeerError"
  by (simp_all add: on_peers_changed_def split: option.splits)


lemma cm_inv_init: "cm_inv init"
  by (simp add: cm_inv_def init_def)

lemma add_peer_ok_iff:
  "peers_changed_callback cm = None \<Longrightarrow>
   (fst (add_peer cm p) = Inr ()) = (\<not> is_duplicate_nonce cm p \<and> \<not> has_connection cm (address p))"
  by (simp add: add_peer_def on_peers_changed_def Let_def)

lemma add_peer_state:
  "snd (add_peer cm p) =
     (if \<not> is_duplicate_nonce cm p \<and> \<not> has_connection cm (address p)
      then cm\<lparr>peers_dict := peers_dict cm @ [(address p, p)]\<rparr> else cm)"
  by (simp add: add_peer_def has_connection_def update_fresh Let_def)

lemma remove_peer_state:
  "snd (remove_peer cm p) =
     cm\<lparr>peers_dict := filter (\<lambda>x. fst x \<noteq> address p) (peers_dict cm)\<rparr>"
proof (cases "has_connection cm (address p)")
  case True
  have "(\<lambda>(k', _). address p \<noteq> k') = (\<lambda>x :: peer_address \<times> peer. fst x \<noteq> address p)" by auto
  then show ?thesis using True by (simp add: remove_peer_def Let_def AList.delete_eq)
next
  case False
  then have "filter (\<lambda>x. fst x \<noteq> address p) (peers_dict cm) = peers_dict cm"
    by (force simp: has_connection_def filter_id_conv)
  then show ?thesis using False by (simp add: remove_peer_def)
qed

lemma cm_inv_add:
  assumes "cm_inv cm"
  shows "cm_inv (snd (add_peer cm p))"
proof (cases "\<not> is_duplicate_nonce cm p \<and> \<not> has_connection cm (address p)")
  case False
  then have "snd (add_peer cm p) = cm" by (auto simp: add_peer_state)
  then show ?thesis using assms by simp
next
  case True
  then have fresh: "address p \<notin> fst ` set (peers_dict cm)"
    and noecho: "\<forall>x \<in> set (peers_dict cm). \<not> echoes_nonce p (snd x)"
    by (auto simp: has_connection_def is_duplicate_nonce_iff peers_def)
  show ?thesis
    using assms True fresh noecho
    by (simp add: add_peer_state cm_inv_def sorted_wrt_append)
qed

lemma cm_inv_remove:
  assumes "cm_inv cm"
  shows "cm_inv (snd (remove_peer cm p))"
  using assms
  by (simp add: remove_peer_state cm_inv_def distinct_map_filter sorted_wrt_filter)

lemma cm_inv_step: "cm_inv cm \<Longrightarrow> cm_inv (cm_step cm c)"
  by (cases c) (simp_all add: cm_inv_add cm_inv_remove)

lemma cm_inv_run: "cm_inv cm \<Longrightarrow> cm_inv (cm_run cm calls)"
  unfolding cm_run_def by (induction calls arbitrary: cm) (simp_all add: cm_inv_step)

lemma cm_run_snoc: "cm_run cm (calls @ [c]) = cm_step (cm_run cm calls) c"
  by (simp add: cm_run_def)

lemma snoc_eq_split:
  "(calls @ [c] = pre @ x # post) =
   ((post = [] \<and> c = x \<and> pre = calls) \<or> (\<exists>post'. post = post' @ [c] \<and> calls = pre @ x # post'))"
  by (cases post rule: rev_cases) auto

lemma added_not_removed_add:
  "added_not_removed cm0 (calls @ [AddPeer q]) p =
     (added_not_removed cm0 calls p \<or> (p = q \<and> fst (add_peer (cm_run cm0 calls) q) = Inr ()))"
  (is "?L = ?R")
proof
  assume ?L
  then obtain pre post where d: "calls @ [AddPeer q] = pre @ AddPeer p # post"
    and ok: "fst (add_peer (cm_run cm0 pre) p) = Inr ()"
    and nr: "\<forall>r. RemovePeer r \<in> set post \<longrightarrow> address r \<noteq> address p"
    unfolding added_not_removed_def by blast
  from d consider "post = []" "AddPeer q = AddPeer p" "pre = calls"
    | post' where "post = post' @ [AddPeer q]" "calls = pre @ AddPeer p # post'"
    unfolding snoc_eq_split by blast
  then show ?R
  proof cases
    case 1
    then show ?thesis using ok by simp
  next
    case 2
    then have "added_not_removed cm0 calls p"
      unfolding added_not_removed_def using ok nr by auto
    then show ?thesis by simp
  qed
next
  assume ?R
  then show ?L
  proof
    assume "added_not_removed cm0 calls p"
    then obtain pre post where "calls = pre @ AddPeer p # post"
      "fst (add_peer (cm_run cm0 pre) p) = Inr ()"
      "\<forall>r. RemovePeer r \<in> set post \<longrightarrow> address r \<noteq> address p"
      unfolding added_not_removed_def by blast
    then have "calls @ [AddPeer q] = pre @ AddPeer p # (post @ [AddPeer q])
        \<and> fst (add_peer (cm_run cm0 pre) p) = Inr ()
        \<and> (\<forall>r. RemovePeer r \<in> set (post @ [AddPeer q]) \<longrightarrow> address r \<noteq> address p)"
      by simp
    then show ?L unfolding added_not_removed_def by blast
  next
    assume "p = q \<and> fst (add_peer (cm_run cm0 calls) q) = Inr ()"
    then have "calls @ [AddPeer q] = calls @ AddPeer p # []
        \<and> fst (add_peer (cm_run cm0 calls) p) = Inr ()
        \<and> (\<forall>r. RemovePeer r \<in> set [] \<longrightarrow> address r \<noteq> address p)"
      by simp
    then show ?L unfolding added_not_removed_def by blast
  qed
qed

lemma added_not_removed_remove:
  "added_not_removed cm0 (calls @ [RemovePeer q]) p =
     (added_not_removed cm0 calls p \<and> address q \<noteq> address p)"
  (is "?L = ?R")
proof
  assume ?L
  then obtain pre post where d: "calls @ [RemovePeer q] = pre @ AddPeer p # post"
    and ok: "fst (add_peer (cm_run cm0 pre) p) = Inr ()"
    and nr: "\<forall>r. RemovePeer r \<in> set post \<longrightarrow> address r \<noteq> address p"
    unfolding added_not_removed_def by blast
  from d obtain post' where p': "post = post' @ [RemovePeer q]" "calls = pre @ AddPeer p # post'"
    unfolding snoc_eq_split by blast
  then have "added_not_removed cm0 calls p"
    unfolding added_not_removed_def using ok nr by auto
  moreover have "address q \<noteq> address p" using nr p' by simp
  ultimately show ?R by simp
next
  assume r: ?R
  then obtain pre post where "calls = pre @ AddPeer p # post"
    "fst (add_peer (cm_run cm0 pre) p) = Inr ()"
    "\<forall>r. RemovePeer r \<in> set post \<longrightarrow> address r \<noteq> address p"
    unfolding added_not_removed_def by blast
  then have "calls @ [RemovePeer q] = pre @ AddPeer p # (post @ [RemovePeer q])
      \<and> fst (add_peer (cm_run cm0 pre) p) = Inr ()
      \<and> (\<forall>r. RemovePeer r \<in> set (post @ [RemovePeer q]) \<longrightarrow> address r \<noteq> address p)"
    using r by auto
  then show ?L unfolding added_not_removed_def by blast
qed

lemma peers_after_add:
  "peers_changed_callback cm = None \<Longrightarrow>
   set (peers (snd (add_peer cm q))) =
     (if fst (add_peer cm q) = Inr () then insert q (set (peers cm)) else set (peers cm))"
  by (simp add: add_peer_ok_iff add_peer_state peers_def)

lemma peers_after_remove:
  assumes "cm_inv cm"
  shows "set (peers (snd (remove_peer cm q))) = {p \<in> set (peers cm). address p \<noteq> address q}"
proof -
  have key: "\<forall>x \<in> set (peers_dict cm). fst x = address (snd x)"
    using assms by (simp add: cm_inv_def)
  have "snd ` {x \<in> set (peers_dict cm). fst x \<noteq> address q}
      = {p \<in> snd ` set (peers_dict cm). address p \<noteq> address q}"
    using key by force
  then show ?thesis
    by (simp add: remove_peer_state peers_def)
qed

lemma peers_run_init:
  fixes cm0 :: "'cb connection_manager"
  assumes cm0: "cm0 = init"
  shows "set (peers (cm_run cm0 calls)) = {p. added_not_removed cm0 calls p}"
proof (induction calls rule: rev_induct)
  case Nil
  then show ?case by (simp add: cm0 cm_run_def init_def peers_def added_not_removed_def)
next
  case (snoc c calls)
  have inv: "cm_inv (cm_run cm0 calls)" unfolding cm0 by (rule cm_inv_run [OF cm_inv_init])
  then have cb: "peers_changed_callback (cm_run cm0 calls) = None" by (simp add: cm_inv_def)
  show ?case
  proof (cases c)
    case (AddPeer q)
    have "set (peers (cm_run cm0 (calls @ [c]))) =
        (if fst (add_peer (cm_run cm0 calls) q) = Inr ()
         then insert q (set (peers (cm_run cm0 calls))) else set (peers (cm_run cm0 calls)))"
      using AddPeer cb by (simp add: cm_run_snoc peers_after_add)
    also have "\<dots> = {p. added_not_removed cm0 (calls @ [c]) p}"
      unfolding snoc AddPeer added_not_removed_add by auto
    finally show ?thesis .
  next
    case (RemovePeer q)
    have "set (peers (cm_run cm0 (calls @ [c]))) =
        {p \<in> set (peers (cm_run cm0 calls)). address p \<noteq> address q}"
      using RemovePeer inv by (simp add: cm_run_snoc peers_after_remove)
    also have "\<dots> = {p. added_not_removed cm0 (calls @ [c]) p}"
      unfolding snoc RemovePeer added_not_removed_remove by auto
    finally show ?thesis .
  qed
qed

lemma remove_peer_missing_iff:
  "(fst (remove_peer cm p) = Inl MissingPeerError) = (address p \<notin> set (map fst (peers_dict cm)))"
  by (simp add: remove_peer_def has_connection_def Let_def on_peers_changed_not_duplicate)

lemma remove_peer_present:
  "peers_changed_callback cm = None \<Longrightarrow> address p \<in> set (map fst (peers_dict cm)) \<Longrightarrow>
   remove_peer cm p = (Inr (), cm\<lparr>peers_dict := filter (\<lambda>x. fst x \<noteq> address p) (peers_dict cm)\<rparr>)"
  using remove_peer_state [of cm p]
  by (simp add: remove_peer_def has_connection_def Let_def on_peers_changed_def)


text \<open>
  Claim C6. Duplicate detection in \<^verbatim>\<open>add_peer\<close>: for every manager state and every
  peer \<open>p\<close>, if some registered peer \<open>q\<close> has a local version whose nonce equals
  \<open>p\<close>'s remote version, \<^verbatim>\<open>add_peer\<close> raises \<^verbatim>\<open>DuplicateNonceError\<close> and the
  manager is unchanged; otherwise, if \<open>p\<close>'s address is a key of the dictionary, it
  raises \<^verbatim>\<open>DuplicatePeerError\<close> and the manager is unchanged; otherwise \<open>p\<close> is
  stored under its address, as a new last entry, and neither of the two errors is raised.
\<close>

theorem add_peer_duplicate_detection:
  "(if \<exists>q \<in> set (peers cm). \<exists>v. local_version q = Some v \<and> nNonce v = remote_version p
    then add_peer cm p = (Inl DuplicateNonceError, cm)
    else if address p \<in> fst ` set (peers_dict cm)
    then add_peer cm p = (Inl DuplicatePeerError, cm)
    else snd (add_peer cm p) = cm\<lparr>peers_dict := peers_dict cm @ [(address p, p)]\<rparr>
       \<and> get_peer (snd (add_peer cm p)) (address p) = Some p
       \<and> fst (add_peer cm p) \<noteq> Inl DuplicateNonceError
       \<and> fst (add_peer cm p) \<noteq> Inl DuplicatePeerError)"
proof -
  have dup: "is_duplicate_nonce cm p =
      (\<exists>q \<in> set (peers cm). \<exists>v. local_version q = Some v \<and> nNonce v = remote_version p)"
    by (fastforce simp: is_duplicate_nonce_iff echoes_nonce_def split: option.splits)
  have has: "has_connection cm (address p) = (address p \<in> fst ` set (peers_dict cm))"
    by (simp add: has_connection_def)
  have main:
    "(if is_duplicate_nonce cm p
      then add_peer cm p = (Inl DuplicateNonceError, cm)
      else if has_connection cm (address p)
      then add_peer cm p = (Inl DuplicatePeerError, cm)
      else snd (add_peer cm p) = cm\<lparr>peers_dict := peers_dict cm @ [(address p, p)]\<rparr>
         \<and> get_peer (snd (add_peer cm p)) (address p) = Some p
         \<and> fst (add_peer cm p) \<noteq> Inl DuplicateNonceError
         \<and> fst (add_peer cm p) \<noteq> Inl DuplicatePeerError)"
  proof (cases "is_duplicate_nonce cm p")
    case True
    then show ?thesis by (simp add: add_peer_duplicate_nonce)
  next
    case nodup: False
    show ?thesis
    proof (cases "has_connection cm (address p)")
      case True
      then show ?thesis using nodup by (simp add: add_peer_duplicate_peer)
    next
      case False
      have "map_of (peers_dict cm) (address p) = None"
        using False has by (simp add: map_of_eq_None_iff)
      then have "map_of (peers_dict cm @ [(address p, p)]) (address p) = Some p"
        by (simp add: map_add_def)
      then show ?thesis
        using nodup False
        by (simp add: add_peer_inserts get_peer_def on_peers_changed_not_duplicate)
    qed
  qed
  then show ?thesis
    by (simp only: dup has)
qed


theorem add_peer_duplicate_detection_witness:
  "add_peer
     \<lparr>peers_dict = [(\<lparr>peer_address.host = ''b'', peer_address.port = 2\<rparr>,
        \<lparr>address = \<lparr>peer_address.host = ''b'', peer_address.port = 2\<rparr>, local_version = Some \<lparr>nNonce = 5\<rparr>, remote_version = 7\<rparr>)],
      peers_changed_callback = (None :: nat option)\<rparr>
     \<lparr>address = \<lparr>peer_address.host = ''c'', peer_address.port = 3\<rparr>, local_version = None, remote_version = 5\<rparr>
   = (Inl DuplicateNonceError,
     \<lparr>peers_dict = [(\<lparr>peer_address.host = ''b'', peer_address.port = 2\<rparr>,
        \<lparr>address = \<lparr>peer_address.host = ''b'', peer_address.port = 2\<rparr>, local_version = Some \<lparr>nNonce = 5\<rparr>, remote_version = 7\<rparr>)],
      peers_changed_callback = None\<rparr>)
   \<and> add_peer
     \<lparr>peers_dict = [(\<lparr>peer_address.host = ''b'', peer_address.port = 2\<rparr>,
        \<lparr>address = \<lparr>peer_address.host = ''b'', peer_address.port = 2\<rparr>, local_version = Some \<lparr>nNonce = 5\<rparr>, remote_version = 7\<rparr>)],
      peers_changed_callback = (None :: nat option)\<rparr>
     \<lparr>address = \<lparr>peer_address.host = ''b'', peer_address.port = 2\<rparr>, local_version = None, remote_version = 6\<rparr>
   = (Inl DuplicatePeerError,
     \<lparr>peers_dict = [(\<lparr>peer_address.host = ''b'', peer_address.port = 2\<rparr>,
        \<lparr>address = \<lparr>peer_address.host = ''b'', peer_address.port = 2\<rparr>, local_version = Some \<lparr>nNonce = 5\<rparr>, remote_version = 7\<rparr>)],
      peers_changed_callback = None\<rparr>)
   \<and> snd (add_peer
     \<lparr>peers_dict = [(\<lparr>peer_address.host = ''b'', peer_address.port = 2\<rparr>,
        \<lparr>address = \<lparr>peer_address.host = ''b'', peer_address.port = 2\<rparr>, local_version = Some \<lparr>nNonce = 5\<rparr>, remote_version = 7\<rparr>)],
      peers_changed_callback = (None :: nat option)\<rparr>
     \<lparr>address = \<lparr>peer_address.host = ''c'', peer_address.port = 3\<rparr>, local_version = None, remote_version = 6\<rparr>)
   = \<lparr>peers_dict = [(\<lparr>peer_address.host = ''b'', peer_address.port = 2\<rparr>,
        \<lparr>address = \<lparr>peer_address.host = ''b'', peer_address.port = 2\<rparr>, local_version = Some \<lparr>nNonce = 5\<rparr>, remote_version = 7\<rparr>),
        (\<lparr>peer_address.host = ''c'', peer_address.port = 3\<rparr>,
        \<lparr>address = \<lparr>peer_address.host = ''c'', peer_address.port = 3\<rparr>, local_version = None, remote_version = 6\<rparr>)],
      peers_changed_callback = None\<rparr>"
  (is "add_peer ?cm ?p1 = _ \<and> add_peer _ ?p2 = _ \<and> snd (add_peer _ ?p3) = _")
  using add_peer_duplicate_detection [of ?cm ?p1]
    add_peer_duplicate_detection [of ?cm ?p2]
    add_peer_duplicate_detection [of ?cm ?p3]
  by (simp add: peers_def)


text \<open>
  Claim C7, as amended. After any finite sequence of \<^verbatim>\<open>add_peer\<close> and
  \<^verbatim>\<open>remove_peer\<close> calls from the empty manager, the registered peers are exactly the
  peers added and not removed, no two entries share an address and every entry is stored
  under its own address, and no entry carries as remote version the local nonce of an entry
  registered before it. \<^verbatim>\<open>remove_peer\<close> raises \<^verbatim>\<open>MissingPeerError\<close> exactly when the
  peer's address is not a key, and otherwise returns with the entry of that address deleted.
  The relation is checked in one direction only, for the peer being added: an entry's
  remote version may equal the local nonce of an entry registered after it.
\<close>

theorem connection_manager_set_invariant:
  fixes cm :: "'cb connection_manager"
  assumes "cm = cm_run init calls"
  shows "set (peers cm) = {p. added_not_removed (init :: 'cb connection_manager) calls p}
       \<and> distinct (map address (peers cm))
       \<and> map fst (peers_dict cm) = map address (peers cm)
       \<and> sorted_wrt (\<lambda>q p. \<not> echoes_nonce p q) (peers cm)
       \<and> (\<forall>p. (fst (remove_peer cm p) = Inl MissingPeerError)
                = (address p \<notin> set (map fst (peers_dict cm))))
       \<and> (\<forall>p. address p \<in> set (map fst (peers_dict cm)) \<longrightarrow>
              remove_peer cm p =
                (Inr (), cm\<lparr>peers_dict := filter (\<lambda>x. fst x \<noteq> address p) (peers_dict cm)\<rparr>))"
proof -
  have inv: "cm_inv cm"
    unfolding assms by (rule cm_inv_run [OF cm_inv_init])
  have keys: "map fst (peers_dict cm) = map address (peers cm)"
    using inv by (simp add: cm_inv_def peers_def)
  have "distinct (map fst (peers_dict cm))"
    using inv by (simp add: cm_inv_def)
  then have dist: "distinct (map address (peers cm))"
    by (simp only: keys)
  have order: "sorted_wrt (\<lambda>q p. \<not> echoes_nonce p q) (peers cm)"
    using inv by (simp add: cm_inv_def peers_def sorted_wrt_map)
  have cb: "peers_changed_callback cm = None"
    using inv by (simp add: cm_inv_def)
  have members: "set (peers cm) = {p. added_not_removed (init :: 'cb connection_manager) calls p}"
    unfolding assms by (rule peers_run_init [OF refl])
  show ?thesis
    using members dist keys order remove_peer_missing_iff [of cm] remove_peer_present [OF cb]
    by blast
qed


theorem connection_manager_set_invariant_witness:
  "peers (cm_run (init :: nat connection_manager)
      [AddPeer \<lparr>address = \<lparr>peer_address.host = ''a'', peer_address.port = 1\<rparr>, local_version = None, remote_version = 5\<rparr>,
       RemovePeer \<lparr>address = \<lparr>peer_address.host = ''a'', peer_address.port = 1\<rparr>, local_version = None, remote_version = 9\<rparr>,
       AddPeer \<lparr>address = \<lparr>peer_address.host = ''b'', peer_address.port = 2\<rparr>, local_version = Some \<lparr>nNonce = 5\<rparr>, remote_version = 7\<rparr>])
     = [\<lparr>address = \<lparr>peer_address.host = ''b'', peer_address.port = 2\<rparr>, local_version = Some \<lparr>nNonce = 5\<rparr>, remote_version = 7\<rparr>]
   \<and> added_not_removed (init :: nat connection_manager)
      [AddPeer \<lparr>address = \<lparr>peer_address.host = ''a'', peer_address.port = 1\<rparr>, local_version = None, remote_version = 5\<rparr>,
       RemovePeer \<lparr>address = \<lparr>peer_address.host = ''a'', peer_address.port = 1\<rparr>, local_version = None, remote_version = 9\<rparr>,
       AddPeer \<lparr>address = \<lparr>peer_address.host = ''b'', peer_address.port = 2\<rparr>, local_version = Some \<lparr>nNonce = 5\<rparr>, remote_version = 7\<rparr>]
      \<lparr>address = \<lparr>peer_address.host = ''b'', peer_address.port = 2\<rparr>, local_version = Some \<lparr>nNonce = 5\<rparr>, remote_version = 7\<rparr>
   \<and> \<not> added_not_removed (init :: nat connection_manager)
      [AddPeer \<lparr>address = \<lparr>peer_address.host = ''a'', peer_address.port = 1\<rparr>, local_version = None, remote_version = 5\<rparr>,
       RemovePeer \<lparr>address = \<lparr>peer_address.host = ''a'', peer_address.port = 1\<rparr>, local_version = None, remote_version = 9\<rparr>,
       AddPeer \<lparr>address = \<lparr>peer_address.host = ''b'', peer_address.port = 2\<rparr>, local_version = Some \<lparr>nNonce = 5\<rparr>, remote_version = 7\<rparr>]
      \<lparr>address = \<lparr>peer_address.host = ''a'', peer_address.port = 1\<rparr>, local_version = None, remote_version = 5\<rparr>
   \<and> remove_peer (cm_run (init :: nat connection_manager)
      [AddPeer \<lparr>address = \<lparr>peer_address.host = ''a'', peer_address.port = 1\<rparr>, local_version = None, remote_version = 5\<rparr>,
       RemovePeer \<lparr>address = \<lparr>peer_address.host = ''a'', peer_address.port = 1\<rparr>, local_version = None, remote_version = 9\<rparr>,
       AddPeer \<lparr>address = \<lparr>peer_address.host = ''b'', peer_address.port = 2\<rparr>, local_version = Some \<lparr>nNonce = 5\<rparr>, remote_version = 7\<rparr>])
      \<lparr>address = \<lparr>peer_address.host = ''b'', peer_address.port = 2\<rparr>, local_version = None, remote_version = 0\<rparr>
     = (Inr (), init)"
  (is "peers (cm_run _ ?calls) = [?p] \<and> _ \<and> _ \<and> _")
proof -
  let ?cm = "cm_run (init :: nat connection_manager) ?calls"
  have run: "?cm = \<lparr>peers_dict = [(\<lparr>peer_address.host = ''b'', peer_address.port = 2\<rparr>, ?p)], peers_changed_callback = None\<rparr>"
    by (simp add: cm_run_def add_peer_def remove_peer_def is_duplicate_nonce_def peers_def
        has_connection_def init_def on_peers_changed_def Let_def)
  have inst: "set (peers ?cm) = {p. added_not_removed (init :: nat connection_manager) ?calls p}
       \<and> (\<forall>p. address p \<in> set (map fst (peers_dict ?cm)) \<longrightarrow>
              remove_peer ?cm p =
                (Inr (), ?cm\<lparr>peers_dict := filter (\<lambda>x. fst x \<noteq> address p) (peers_dict ?cm)\<rparr>))"
    using connection_manager_set_invariant [OF refl, of ?calls, where ?'cb = nat] by blast
  have p1: "peers ?cm = [?p]" by (simp add: run peers_def)
  have p2: "added_not_removed (init :: nat connection_manager) ?calls ?p"
    using inst p1 by auto
  have "\<lparr>address = \<lparr>peer_address.host = ''a'', peer_address.port = 1\<rparr>, local_version = None, remote_version = 5\<rparr> \<notin> set (peers ?cm)"
    unfolding p1 by simp
  then have p3: "\<not> added_not_removed (init :: nat connection_manager) ?calls
      \<lparr>address = \<lparr>peer_address.host = ''a'', peer_address.port = 1\<rparr>, local_version = None, remote_version = 5\<rparr>"
    using inst by blast
  have p4: "remove_peer ?cm \<lparr>address = \<lparr>peer_address.host = ''b'', peer_address.port = 2\<rparr>, local_version = None, remote_version = 0\<rparr>
      = (Inr (), init)"
    using inst [THEN conjunct2, rule_format,
        of "\<lparr>address = \<lparr>peer_address.host = ''b'', peer_address.port = 2\<rparr>, local_version = None, remote_version = 0\<rparr>"]
    unfolding run by (simp add: init_def)
  show ?thesis using p1 p2 p3 p4 by blast
qed


text \<open>
  The claim as first stated asks that no two entries be related by the version-nonce
  relation. Two calls from the empty manager register two peers of which the first
  carries as remote version the local nonce of the second.
\<close>

theorem version_nonce_relation_counterexample:
  "peers (cm_run (init :: nat connection_manager)
      [AddPeer \<lparr>address = \<lparr>peer_address.host = ''a'', peer_address.port = 1\<rparr>, local_version = None, remote_version = 5\<rparr>,
       AddPeer \<lparr>address = \<lparr>peer_address.host = ''b'', peer_address.port = 2\<rparr>, local_version = Some \<lparr>nNonce = 5\<rparr>, remote_version = 7\<rparr>])
     = [\<lparr>address = \<lparr>peer_address.host = ''a'', peer_address.port = 1\<rparr>, local_version = None, remote_version = 5\<rparr>,
        \<lparr>address = \<lparr>peer_address.host = ''b'', peer_address.port = 2\<rparr>, local_version = Some \<lparr>nNonce = 5\<rparr>, remote_version = 7\<rparr>]
   \<and> echoes_nonce
        \<lparr>address = \<lparr>peer_address.host = ''a'', peer_address.port = 1\<rparr>, local_version = None, remote_version = 5\<rparr>
        \<lparr>address = \<lparr>peer_address.host = ''b'', peer_address.port = 2\<rparr>, local_version = Some \<lparr>nNonce = 5\<rparr>, remote_version = 7\<rparr>"
  by (simp add: cm_run_def add_peer_def is_duplicate_nonce_def peers_def
      has_connection_def init_def on_peers_changed_def Let_def echoes_nonce_def)


text \<open>
  Claim C10. The duplicate-nonce check compares only with registered peers that have a
  local version: in a manager state where every registered peer's local version is
  \<^verbatim>\<open>None\<close>, \<^verbatim>\<open>add_peer\<close> of any peer, whatever its remote version, does not raise
  \<^verbatim>\<open>DuplicateNonceError\<close>.
\<close>

theorem add_peer_without_local_versions:
  assumes "\<forall>q \<in> set (peers cm). local_version q = None"
  shows "\<not> is_duplicate_nonce cm p \<and> fst (add_peer cm p) \<noteq> Inl DuplicateNonceError"
proof -
  have nodup: "\<not> is_duplicate_nonce cm p"
    using assms by (auto simp: is_duplicate_nonce_iff echoes_nonce_def)
  show ?thesis
  proof (cases "has_connection cm (address p)")
    case True
    then show ?thesis using nodup by (simp add: add_peer_duplicate_peer)
  next
    case False
    then show ?thesis using nodup by (simp add: add_peer_inserts on_peers_changed_not_duplicate)
  qed
qed

theorem add_peer_without_local_versions_witness:
  "\<not> is_duplicate_nonce
     \<lparr>peers_dict = [(\<lparr>peer_address.host = ''a'', peer_address.port = 1\<rparr>,
        \<lparr>address = \<lparr>peer_address.host = ''a'', peer_address.port = 1\<rparr>, local_version = None, remote_version = 5\<rparr>)],
      peers_changed_callback = (None :: nat option)\<rparr>
     \<lparr>address = \<lparr>peer_address.host = ''c'', peer_address.port = 3\<rparr>, local_version = Some \<lparr>nNonce = 8\<rparr>, remote_version = 5\<rparr>
   \<and> fst (add_peer
     \<lparr>peers_dict = [(\<lparr>peer_address.host = ''a'', peer_address.port = 1\<rparr>,
        \<lparr>address = \<lparr>peer_address.host = ''a'', peer_address.port = 1\<rparr>, local_version = None, remote_version = 5\<rparr>)],
      peers_changed_callback = (None :: nat option)\<rparr>
     \<lparr>address = \<lparr>peer_address.host = ''c'', peer_address.port = 3\<rparr>, local_version = Some \<lparr>nNonce = 8\<rparr>, remote_version = 5\<rparr>)
     \<noteq> Inl DuplicateNonceError"
  (is "\<not> is_duplicate_nonce ?cm ?p \<and> _")
proof -
  have "\<forall>q \<in> set (peers ?cm). local_version q = None"
    by (simp add: peers_def)
  then show ?thesis
    by (rule add_peer_without_local_versions)
qed

section \<open>Squeak core: properties\<close>

lemma bytes_to_int_snoc: "bytes_to_int (bs @ [b]) = bytes_to_int bs * 256 + uint b"
  by (simp add: bytes_to_int_def)

lemma bytes_to_int_nonneg: "0 \<le> bytes_to_int bs"
  by (induction bs rule: rev_induct) (simp_all add: bytes_to_int_snoc bytes_to_int_def)

lemma uint_byte_bound: "uint (b :: 8 word) < 256"
  using uint_bounded [of b] by simp

lemma int_to_bytes_bytes_to_int: "int_to_bytes (length bs) (bytes_to_int bs) = bs"
proof (induction bs rule: rev_induct)
  case Nil
  then show ?case by simp
next
  case (snoc b bs)
  have d: "(bytes_to_int bs * 256 + uint b) div 256 = bytes_to_int bs"
    using uint_byte_bound [of b] by simp
  have m: "(bytes_to_int bs * 256 + uint b) mod 256 = uint b"
    using uint_byte_bound [of b] by simp
  have "int_to_bytes (Suc (length bs)) (bytes_to_int bs * 256 + uint b) =
      int_to_bytes (length bs) (bytes_to_int bs) @ [word_of_int (uint b)]"
    by (simp only: int_to_bytes.simps d m)
  then show ?case using snoc by (simp add: bytes_to_int_snoc)
qed

lemma bytes_to_int_int_to_bytes:
  "0 \<le> x \<Longrightarrow> x < 256 ^ n \<Longrightarrow> bytes_to_int (int_to_bytes n x) = x"
proof (induction n arbitrary: x)
  case 0
  then show ?case by (simp add: bytes_to_int_def)
next
  case (Suc n)
  have "x div 256 < 256 ^ n" using Suc.prems by (simp add: div_less_iff_less_mult mult.commute)
  moreover have "0 \<le> x div 256" using Suc.prems by simp
  ultimately have ih: "bytes_to_int (int_to_bytes n (x div 256)) = x div 256"
    by (rule Suc.IH [rotated])
  have "uint (word_of_int (x mod 256) :: 8 word) = x mod 256"
    by (simp add: uint_word_of_int)
  then show ?case by (simp add: bytes_to_int_snoc ih)
qed

lemma curve_order_bound: "curve_order < 256 ^ 32"
  by (simp add: curve_order_def)

lemma subtract_tweak_add_tweak:
  assumes "in_range a"
  shows "subtract_tweak (add_tweak a t) t = a"
proof -
  let ?s = "(bytes_to_int a + bytes_to_int t) mod curve_order"
  have len: "length a = 32" and below: "bytes_to_int a < curve_order"
    using assms by (simp_all add: in_range_def)
  have pos: "0 < curve_order" by (simp add: curve_order_def)
  have "0 \<le> ?s" "?s < curve_order" using pos by simp_all
  then have "0 \<le> ?s" "?s < 256 ^ 32" using curve_order_bound by linarith+
  then have "bytes_to_int (add_tweak a t) = ?s"
    unfolding add_tweak_def by (rule bytes_to_int_int_to_bytes)
  then have "(bytes_to_int (add_tweak a t) - bytes_to_int t) mod curve_order
      = (bytes_to_int a + bytes_to_int t - bytes_to_int t) mod curve_order"
    by (simp add: mod_diff_left_eq)
  also have "\<dots> = bytes_to_int a"
    using below bytes_to_int_nonneg [of a] by simp
  finally show ?thesis
    unfolding subtract_tweak_def using int_to_bytes_bytes_to_int [of a] len by simp
qed

lemma create_offer_secret_key:
  "create_offer e squeak sk pa price = (Inr so, calls) \<Longrightarrow>
   sent_offer.secret_key so = add_tweak sk (generate_tweak e)
   \<and> sent_offer.nonce so = generate_tweak e"
  by (auto simp: create_offer_def Let_def split: sum.splits)

lemma package_offer_fields:
  "package_offer e so a = (Inr off, calls) \<Longrightarrow>
   offer.nonce off = sent_offer.nonce so
   \<and> offer.payment_request off = sent_offer.payment_request so
   \<and> offer.squeak_hash off = sent_offer.squeak_hash so"
  by (auto simp: package_offer_def split: option.splits sum.splits prod.splits)

lemma unpack_offer_fields:
  "unpack_offer e squeak off pa = (Inr ro, calls) \<Longrightarrow>
   received_offer.nonce ro = offer.nonce off
   \<and> received_offer.payment_request ro = offer.payment_request off
   \<and> received_offer.payment_point ro = paymentPoint squeak
   \<and> lightning_address_host_port.host (received_offer.lightning_address ro) =
       (if offer.host off \<noteq> [] then offer.host off else peer_address.host pa)
   \<and> lightning_address_host_port.port (received_offer.lightning_address ro) = offer.port off"
  by (auto simp: unpack_offer_def Let_def split: option.splits sum.splits if_splits)

lemma pay_offer_paid:
  "pay_offer e ro = (Inr sp, calls) \<Longrightarrow>
   \<exists>p pt. pay_invoice_sync e (received_offer.payment_request ro) = Inr p
     \<and> payment_preimage p \<noteq> []
     \<and> sent_payment.secret_key sp = subtract_tweak (payment_preimage p) (received_offer.nonce ro)
     \<and> payment_point_bytes_from_scalar_bytes e (sent_payment.secret_key sp) = Inr pt
     \<and> sent_payment.valid sp = (pt = received_offer.payment_point ro)"
  by (auto simp: pay_offer_def Let_def split: sum.splits if_splits)

lemma pay_offer_failed_iff:
  "(fst (pay_offer e ro) = Inl (PaymentFailed msg)) =
     (\<exists>p. pay_invoice_sync e (received_offer.payment_request ro) = Inr p
        \<and> payment_preimage p = [] \<and> payment_error p = msg)"
  by (auto simp: pay_offer_def Let_def split: sum.splits)

lemma pay_offer_point_raises:
  "pay_invoice_sync e (received_offer.payment_request ro) = Inr p \<Longrightarrow>
   payment_preimage p \<noteq> [] \<Longrightarrow>
   payment_point_bytes_from_scalar_bytes e
     (subtract_tweak (payment_preimage p) (received_offer.nonce ro)) = Inl x \<Longrightarrow>
   pay_offer e ro = (Inl (Raised x), [PayInvoiceSync (received_offer.payment_request ro)])"
  by (simp add: pay_offer_def Let_def)

lemma pay_offer_point_returns:
  "pay_invoice_sync e (received_offer.payment_request ro) = Inr p \<Longrightarrow>
   payment_preimage p \<noteq> [] \<Longrightarrow>
   payment_point_bytes_from_scalar_bytes e
     (subtract_tweak (payment_preimage p) (received_offer.nonce ro)) = Inr pt \<Longrightarrow>
   \<exists>sp. fst (pay_offer e ro) = Inr sp
     \<and> sent_payment.secret_key sp = subtract_tweak (payment_preimage p) (received_offer.nonce ro)
     \<and> sent_payment.valid sp = (pt = received_offer.payment_point ro)"
  by (simp add: pay_offer_def Let_def)

lemma get_payment_stream_yields:
  "get_payment_stream f invoices stream_end =
     (map (\<lambda>invoice.
            \<lparr> received_payment.received_payment_id = None,
              received_payment.created_time_ms = None,
              received_payment.squeak_hash = sent_offer.squeak_hash (f (invoice.r_hash invoice)),
              received_payment.payment_hash = sent_offer.payment_hash (f (invoice.r_hash invoice)),
              received_payment.price_msat = sent_offer.price_msat (f (invoice.r_hash invoice)),
              received_payment.settle_index = invoice.settle_index invoice,
              received_payment.peer_address = sent_offer.peer_address (f (invoice.r_hash invoice)) \<rparr>)
        (filter settled invoices),
      case stream_end of
        EndOfStream \<Rightarrow> None
      | StreamRaises (RpcError code) \<Rightarrow>
          if code = CANCELLED then None else Some InvoiceSubscriptionError
      | StreamRaises (OtherException msg) \<Rightarrow> Some (Raised (OtherException msg)))"
proof (induction invoices)
  case Nil
  then show ?case
    by (cases stream_end; simp split: exn.splits)
next
  case (Cons invoice invoices)
  then show ?case by (simp add: Let_def)
qed

lemma scenario_add_tweak: "add_tweak scenario_secret_key scenario_nonce = scenario_preimage"
  by code_simp

lemma scenario_in_range: "in_range scenario_secret_key"
  by code_simp

lemma scenario_created:
  "create_offer scenario_env scenario_squeak scenario_secret_key scenario_buyer_address 1000 =
     (Inr scenario_sent_offer,
      [AddInvoice scenario_preimage 1000, LookupInvoice ''cd''])"
  by (simp add: create_offer_def scenario_env_def scenario_squeak_def scenario_sent_offer_def
      scenario_add_tweak hex_def hex_digit_def Let_def)

lemma scenario_packaged:
  "package_offer scenario_env scenario_sent_offer None = (Inr scenario_offer, [GetInfo])"
  by (simp add: package_offer_def get_lnd_external_address_def scenario_env_def
      scenario_sent_offer_def scenario_offer_def)

lemma scenario_unpacked:
  "unpack_offer scenario_env scenario_squeak scenario_offer scenario_seller_address =
     (Inr scenario_received_offer, [DecodePayReq ''lnbc1''])"
  by (simp add: unpack_offer_def scenario_env_def scenario_squeak_def scenario_offer_def
      scenario_received_offer_def hex_value_def is_space_def Let_def)

lemma scenario_subtract_tweak:
  "subtract_tweak scenario_preimage scenario_nonce = scenario_secret_key"
  by code_simp

lemma scenario_subtract_nonce:
  "subtract_tweak scenario_nonce scenario_nonce = scenario_zero_scalar"
  by code_simp

lemma scenario_paid:
  "fst (pay_offer scenario_env scenario_received_offer) =
     Inr \<lparr> sent_payment_id = None,
       sent_payment.created_time_ms = None,
       sent_payment.peer_address = scenario_seller_address,
       sent_payment.squeak_hash = [171, 205],
       sent_payment.payment_hash = [205],
       sent_payment.secret_key = scenario_secret_key,
       sent_payment.price_msat = 1000,
       sent_payment.node_pubkey = ''02aa'',
       sent_payment.valid = True \<rparr>"
proof -
  have "scenario_secret_key \<noteq> scenario_zero_scalar"
    by (simp add: scenario_secret_key_def scenario_zero_scalar_def)
  moreover have "scenario_preimage \<noteq> []"
    by (simp add: scenario_preimage_def)
  ultimately show ?thesis
    by (simp add: pay_offer_def scenario_env_def scenario_received_offer_def
        scenario_subtract_tweak scenario_seller_address_def Let_def)
qed

text \<open>
  Claim C1. Key-recovery law. The seller runs \<^verbatim>\<open>create_offer\<close> with the squeak's secret
  key, an in-range scalar whose point is the squeak's payment point, and packages the
  offer; the buyer unpacks it and \<^verbatim>\<open>pay_offer\<close> returns a payment. The payment is
  successful: the preimage the buyer's Lightning client returns for the seller's payment
  request, when not empty, is the preimage of the seller's invoice, which
  \<^verbatim>\<open>create_offer\<close> stores in the sent offer. Then the stored preimage is
  \<^verbatim>\<open>add_tweak\<close> of the secret key and the nonce, the payment's secret key is the
  seller's secret key, and its valid flag is true. This rests on the round trip
  \<^verbatim>\<open>subtract_tweak (add_tweak a t) t = a\<close> for all in-range scalars.
\<close>

theorem key_recovery_law:
  assumes scalar: "in_range sk"
    and point: "payment_point_bytes_from_scalar_bytes buyer sk = Inr (paymentPoint squeak)"
    and created: "create_offer seller squeak sk buyer_address price = (Inr so, calls1)"
    and packaged: "package_offer seller so external_address = (Inr off, calls2)"
    and unpacked: "unpack_offer buyer squeak off seller_address = (Inr ro, calls3)"
    and paid: "pay_offer buyer ro = (Inr sp, calls4)"
    and settles: "\<forall>p. pay_invoice_sync buyer (sent_offer.payment_request so) = Inr p
                    \<and> payment_preimage p \<noteq> []
                  \<longrightarrow> payment_preimage p = sent_offer.secret_key so"
  shows "sent_offer.secret_key so = add_tweak sk (generate_tweak seller)
       \<and> sent_payment.secret_key sp = sk
       \<and> sent_payment.valid sp
       \<and> (\<forall>a t. in_range a \<and> in_range t \<longrightarrow> subtract_tweak (add_tweak a t) t = a)"
proof -
  from created have so: "sent_offer.secret_key so = add_tweak sk (generate_tweak seller)"
    "sent_offer.nonce so = generate_tweak seller"
    by (simp_all add: create_offer_secret_key)
  from packaged have off: "offer.nonce off = sent_offer.nonce so"
    "offer.payment_request off = sent_offer.payment_request so"
    by (simp_all add: package_offer_fields)
  from unpacked have ro: "received_offer.nonce ro = offer.nonce off"
    "received_offer.payment_request ro = offer.payment_request off"
    "received_offer.payment_point ro = paymentPoint squeak"
    by (simp_all add: unpack_offer_fields)
  from pay_offer_paid [OF paid] obtain p pt where
    p: "pay_invoice_sync buyer (received_offer.payment_request ro) = Inr p"
      "payment_preimage p \<noteq> []"
    and key: "sent_payment.secret_key sp = subtract_tweak (payment_preimage p) (received_offer.nonce ro)"
    and pt: "payment_point_bytes_from_scalar_bytes buyer (sent_payment.secret_key sp) = Inr pt"
    and v: "sent_payment.valid sp = (pt = received_offer.payment_point ro)"
    by blast
  have "payment_preimage p = sent_offer.secret_key so"
    using settles p by (simp add: ro off)
  then have "sent_payment.secret_key sp = subtract_tweak (add_tweak sk (generate_tweak seller)) (generate_tweak seller)"
    using key by (simp add: so ro off)
  then have recovered: "sent_payment.secret_key sp = sk"
    by (simp add: subtract_tweak_add_tweak [OF scalar])
  then have "pt = paymentPoint squeak"
    using pt point by simp
  then have "sent_payment.valid sp"
    using v by (simp add: ro)
  then show ?thesis
    using so(1) recovered subtract_tweak_add_tweak by blast
qed

theorem key_recovery_law_witness:
  "in_range scenario_secret_key
   \<and> create_offer scenario_env scenario_squeak scenario_secret_key scenario_buyer_address 1000 =
       (Inr scenario_sent_offer, [AddInvoice scenario_preimage 1000, LookupInvoice ''cd''])
   \<and> package_offer scenario_env scenario_sent_offer None = (Inr scenario_offer, [GetInfo])
   \<and> unpack_offer scenario_env scenario_squeak scenario_offer scenario_seller_address =
       (Inr scenario_received_offer, [DecodePayReq ''lnbc1''])
   \<and> (\<exists>sp calls. pay_offer scenario_env scenario_received_offer = (Inr sp, calls)
         \<and> sent_payment.secret_key sp = scenario_secret_key
         \<and> sent_payment.valid sp)"
proof -
  obtain sp calls where paid: "pay_offer scenario_env scenario_received_offer = (Inr sp, calls)"
    using scenario_paid by (cases "pay_offer scenario_env scenario_received_offer") auto
  have "scenario_secret_key \<noteq> scenario_zero_scalar"
    by (simp add: scenario_secret_key_def scenario_zero_scalar_def)
  then have point: "payment_point_bytes_from_scalar_bytes scenario_env scenario_secret_key =
      Inr (paymentPoint scenario_squeak)"
    by (simp add: scenario_squeak_def scenario_env_def)
  have settles: "\<forall>p. pay_invoice_sync scenario_env (sent_offer.payment_request scenario_sent_offer) = Inr p
        \<and> payment_preimage p \<noteq> []
      \<longrightarrow> payment_preimage p = sent_offer.secret_key scenario_sent_offer"
    by (auto simp: scenario_env_def scenario_sent_offer_def)
  have "sent_payment.secret_key sp = scenario_secret_key \<and> sent_payment.valid sp"
    using key_recovery_law [OF scenario_in_range point scenario_created scenario_packaged
        scenario_unpacked paid settles]
    by blast
  then show ?thesis
    using scenario_in_range scenario_created scenario_packaged scenario_unpacked paid by blast
qed

text \<open>
  Claim C2. Hash binding. When the offer's squeak hash differs from the hash of the squeak,
  \<^verbatim>\<open>unpack_offer\<close> raises the hash mismatch, with both hashes, before any call to the
  Lightning client: no payment request is decoded and no received offer is returned.
\<close>

theorem unpack_offer_hash_binding:
  assumes "offer.squeak_hash off \<noteq> get_hash e squeak"
  shows "unpack_offer e squeak off pa =
           (Inl (OfferHashMismatch (offer.squeak_hash off) (get_hash e squeak)), [])"
  using assms by (auto simp: unpack_offer_def Let_def)

theorem unpack_offer_hash_binding_witness:
  "unpack_offer scenario_env scenario_squeak
     (scenario_offer\<lparr>offer.squeak_hash := [171, 204]\<rparr>) scenario_seller_address =
     (Inl (OfferHashMismatch [171, 204] [171, 205]), [])"
  using unpack_offer_hash_binding
    [of "scenario_offer\<lparr>offer.squeak_hash := [171, 204]\<rparr>" scenario_env scenario_squeak
      scenario_seller_address]
  by (simp add: scenario_env_def scenario_squeak_def)

text \<open>
  Claim C3. \<^verbatim>\<open>pay_offer\<close> raises the payment failure carrying the payment error exactly
  when \<^verbatim>\<open>pay_invoice_sync\<close> returns a payment with an empty preimage; with a preimage
  that is not empty the claim asks for a sent payment in every case, valid or not. The
  code computes the point of the recovered key with no guard. A seller whose invoice has
  the nonce itself as preimage makes the recovered key the scalar 0, which has no point:
  the library raises, and \<^verbatim>\<open>pay_offer\<close> leaves with that exception after the invoice is
  paid, where the claim asks for a sent payment with the valid flag false.
\<close>

theorem pay_offer_zero_key_raises:
  "scenario_nonce \<noteq> []
   \<and> subtract_tweak scenario_nonce (received_offer.nonce scenario_received_offer)
       = scenario_zero_scalar
   \<and> pay_offer
       (scenario_env\<lparr>pay_invoice_sync :=
          \<lambda>pr. Inr \<lparr> payment_preimage = scenario_nonce, payment_error = [] \<rparr>\<rparr>)
       scenario_received_offer
     = (Inl (Raised (OtherException ''scalar 0 has no point'')), [PayInvoiceSync ''lnbc1''])"
proof -
  have nonempty: "scenario_nonce \<noteq> []"
    by (simp add: scenario_nonce_def)
  have zero: "subtract_tweak scenario_nonce (received_offer.nonce scenario_received_offer)
      = scenario_zero_scalar"
    by (simp add: scenario_received_offer_def scenario_subtract_nonce)
  have "pay_offer
       (scenario_env\<lparr>pay_invoice_sync :=
          \<lambda>pr. Inr \<lparr> payment_preimage = scenario_nonce, payment_error = [] \<rparr>\<rparr>)
       scenario_received_offer
     = (Inl (Raised (OtherException ''scalar 0 has no point'')), [PayInvoiceSync ''lnbc1''])"
    using nonempty zero
    by (simp add: pay_offer_point_raises scenario_env_def scenario_received_offer_def)
  then show ?thesis using nonempty zero by blast
qed

text \<open>
  Claim C4. \<^verbatim>\<open>make_squeak\<close> with a profile whose private key is \<^verbatim>\<open>None\<close> raises
  the error of a contact profile and calls no client; no squeak is made. With a private
  key, the signing key is built first, and a string that is not a key raises there, before
  any call. With a signing key and a Bitcoin client that answers, the one call made is the
  read of the best block, and what \<^verbatim>\<open>make_squeak\<close> returns or raises is what
  \<^verbatim>\<open>MakeSqueakFromStr\<close> returns or raises on the height and hash of that block and on
  the clock's time in whole seconds, truncated towards zero.
\<close>

theorem make_squeak_requires_signing_profile:
  "(private_key profile = None \<longrightarrow>
      make_squeak e profile content_str replyto_hash = (Inl ProfileNotSigning, []))
   \<and> (\<forall>key_bytes key_str x.
        private_key profile = Some key_bytes \<and> utf8_decode e key_bytes = Some key_str
          \<and> CSigningKey e key_str = Inl x
        \<longrightarrow> make_squeak e profile content_str replyto_hash = (Inl (Raised x), []))
   \<and> (\<forall>key_bytes key_str signing_key info.
        private_key profile = Some key_bytes \<and> utf8_decode e key_bytes = Some key_str
          \<and> CSigningKey e key_str = Inr signing_key
          \<and> get_best_block_info e = Inr info
        \<longrightarrow> make_squeak e profile content_str replyto_hash =
             (case MakeSqueakFromStr e signing_key content_str
                     (block_height info) (block_hash info)
                     (if 0 \<le> time_time e then \<lfloor>time_time e\<rfloor> else \<lceil>time_time e\<rceil>)
                     replyto_hash of
                Inl x \<Rightarrow> Inl (Raised x)
              | Inr made \<Rightarrow> Inr made,
              [GetBestBlockInfo]))"
  by (auto simp: make_squeak_def int_of_float_def Let_def split: sum.splits)

theorem make_squeak_requires_signing_profile_witness:
  "make_squeak scenario_env \<lparr> private_key = None \<rparr> ''hello'' None = (Inl ProfileNotSigning, [])
   \<and> make_squeak scenario_env \<lparr> private_key = Some [75, 120] \<rparr> ''hello'' None =
       (Inl (Raised (OtherException ''Base58ChecksumError'')), [])
   \<and> make_squeak scenario_env \<lparr> private_key = Some scenario_private_key \<rparr> ''hello'' None =
       (Inr (\<lparr> nBlockHeight = 700000, hashBlock = [171, 205],
               paymentPoint = 2 # scenario_secret_key, nTime = 1600000000 \<rparr>,
             scenario_secret_key),
        [GetBestBlockInfo])"
proof -
  let ?key = "''KwDiBf89QgGbjEhKnhXJuH7LrciVrZi3qYjgd9M7rFU73sVHnoWn''"
  let ?info = "\<lparr> block_height = 700000, block_hash = [171, 205], block_header = [] \<rparr>"
  have contact: "private_key \<lparr> private_key = None \<rparr> = None" by simp
  have differ: "[75, 120] \<noteq> scenario_private_key"
    by (simp add: scenario_private_key_def)
  have invalid: "private_key \<lparr> private_key = Some [75, 120] \<rparr> = Some [75, 120]
      \<and> utf8_decode scenario_env [75, 120] = Some ''Kx''
      \<and> CSigningKey scenario_env ''Kx'' = Inl (OtherException ''Base58ChecksumError'')"
    using differ by (simp add: scenario_env_def)
  have signing: "private_key \<lparr> private_key = Some scenario_private_key \<rparr> = Some scenario_private_key
      \<and> utf8_decode scenario_env scenario_private_key = Some ?key
      \<and> CSigningKey scenario_env ?key = Inr ?key
      \<and> get_best_block_info scenario_env = Inr ?info"
    by (simp add: scenario_env_def)
  have c1: "make_squeak scenario_env \<lparr> private_key = None \<rparr> ''hello'' None = (Inl ProfileNotSigning, [])"
    using make_squeak_requires_signing_profile
      [of "\<lparr> private_key = None \<rparr>" scenario_env "''hello''" None] contact by blast
  have c2: "make_squeak scenario_env \<lparr> private_key = Some [75, 120] \<rparr> ''hello'' None =
      (Inl (Raised (OtherException ''Base58ChecksumError'')), [])"
    using make_squeak_requires_signing_profile
      [of "\<lparr> private_key = Some [75, 120] \<rparr>" scenario_env "''hello''" None] invalid by blast
  have "make_squeak scenario_env \<lparr> private_key = Some scenario_private_key \<rparr> ''hello'' None =
      (case MakeSqueakFromStr scenario_env ?key ''hello''
              (block_height ?info) (block_hash ?info)
              (if 0 \<le> time_time scenario_env then \<lfloor>time_time scenario_env\<rfloor>
               else \<lceil>time_time scenario_env\<rceil>) None of
         Inl x \<Rightarrow> Inl (Raised x)
       | Inr made \<Rightarrow> Inr made,
       [GetBestBlockInfo])"
    using make_squeak_requires_signing_profile
      [of "\<lparr> private_key = Some scenario_private_key \<rparr>" scenario_env "''hello''" None]
      signing by blast
  then have c3: "make_squeak scenario_env \<lparr> private_key = Some scenario_private_key \<rparr> ''hello'' None =
       (Inr (\<lparr> nBlockHeight = 700000, hashBlock = [171, 205],
               paymentPoint = 2 # scenario_secret_key, nTime = 1600000000 \<rparr>,
             scenario_secret_key),
        [GetBestBlockInfo])"
    by (simp add: scenario_env_def)
  show ?thesis using c1 c2 c3 by blast
qed

text \<open>
  Claim C5. External-address fallback. \<^verbatim>\<open>package_offer\<close> without an explicit
  address, when \<^verbatim>\<open>get_info\<close> reports no URI, emits an offer with the empty host and
  port 0. Every received offer that \<^verbatim>\<open>unpack_offer\<close> returns has as Lightning host
  the offer's host when that is not empty and the host of the peer address otherwise, and
  as Lightning port the offer's port.
\<close>

theorem external_address_fallback:
  "(\<forall>info. get_info e = Inr info \<and> uris info = [] \<longrightarrow>
      package_offer e so None =
        (Inr \<lparr> offer.squeak_hash = sent_offer.squeak_hash so,
                offer.nonce = sent_offer.nonce so,
                offer.payment_request = sent_offer.payment_request so,
                offer.host = [], offer.port = 0 \<rparr>,
         [GetInfo]))
   \<and> (\<forall>ro calls. unpack_offer e squeak off pa = (Inr ro, calls) \<longrightarrow>
        lightning_address_host_port.host (received_offer.lightning_address ro) =
          (if offer.host off \<noteq> [] then offer.host off else peer_address.host pa)
        \<and> lightning_address_host_port.port (received_offer.lightning_address ro) =
          offer.port off)"
proof -
  have "package_offer e so None =
        (Inr \<lparr> offer.squeak_hash = sent_offer.squeak_hash so,
                offer.nonce = sent_offer.nonce so,
                offer.payment_request = sent_offer.payment_request so,
                offer.host = [], offer.port = 0 \<rparr>,
         [GetInfo])"
    if "get_info e = Inr info" "uris info = []" for info
    using that by (simp add: package_offer_def get_lnd_external_address_def)
  then show ?thesis
    using unpack_offer_fields [of e squeak off pa] by blast
qed

theorem external_address_fallback_witness:
  "package_offer (scenario_env\<lparr>get_info := Inr \<lparr> uris = [] \<rparr>\<rparr>) scenario_sent_offer None =
     (Inr (scenario_offer\<lparr>offer.host := [], offer.port := 0\<rparr>), [GetInfo])
   \<and> (\<exists>ro calls.
        unpack_offer (scenario_env\<lparr>get_info := Inr \<lparr> uris = [] \<rparr>\<rparr>) scenario_squeak
          (scenario_offer\<lparr>offer.host := [], offer.port := 0\<rparr>) scenario_seller_address
          = (Inr ro, calls)
        \<and> lightning_address_host_port.host (received_offer.lightning_address ro) = ''seller.example''
        \<and> lightning_address_host_port.port (received_offer.lightning_address ro) = 0)"
proof -
  let ?e = "scenario_env\<lparr>get_info := Inr \<lparr> uris = [] \<rparr>\<rparr>"
  let ?off = "scenario_offer\<lparr>offer.host := [], offer.port := 0\<rparr>"
  note fallback = external_address_fallback
    [of ?e scenario_sent_offer scenario_squeak ?off scenario_seller_address]
  have "get_info ?e = Inr \<lparr> uris = [] \<rparr> \<and> uris \<lparr> uris = [] \<rparr> = []" by simp
  then have "package_offer ?e scenario_sent_offer None =
        (Inr \<lparr> offer.squeak_hash = sent_offer.squeak_hash scenario_sent_offer,
                offer.nonce = sent_offer.nonce scenario_sent_offer,
                offer.payment_request = sent_offer.payment_request scenario_sent_offer,
                offer.host = [], offer.port = 0 \<rparr>,
         [GetInfo])"
    using fallback by blast
  then have packaged: "package_offer ?e scenario_sent_offer None = (Inr ?off, [GetInfo])"
    by (simp add: scenario_sent_offer_def scenario_offer_def)
  obtain ro calls where unpacked:
    "unpack_offer ?e scenario_squeak ?off scenario_seller_address = (Inr ro, calls)"
    by (simp add: unpack_offer_def scenario_env_def scenario_squeak_def scenario_offer_def
        hex_value_def is_space_def Let_def)
  then have "lightning_address_host_port.host (received_offer.lightning_address ro) =
          (if offer.host ?off \<noteq> [] then offer.host ?off
           else peer_address.host scenario_seller_address)
        \<and> lightning_address_host_port.port (received_offer.lightning_address ro) = offer.port ?off"
    using fallback by blast
  then have "lightning_address_host_port.host (received_offer.lightning_address ro) = ''seller.example''
        \<and> lightning_address_host_port.port (received_offer.lightning_address ro) = 0"
    by (simp add: scenario_seller_address_def)
  then show ?thesis using packaged unpacked by blast
qed

text \<open>
  Claim C8. For the invoices a subscription delivers and the way it ends,
  \<^verbatim>\<open>get_received_payments\<close> subscribes at the given settle index and its stream yields
  one received payment for each settled invoice, in order, and none for the others; each
  carries the squeak hash, payment hash, price and peer address of the sent offer looked
  up by the invoice's \<^verbatim>\<open>r_hash\<close>, and the invoice's settle index. The stream returns
  when the subscription is exhausted or raises the gRPC error of a cancellation, and
  raises \<^verbatim>\<open>InvoiceSubscriptionError\<close> on a gRPC error of any other status.
\<close>

theorem received_payments_stream:
  assumes "subscribe_invoices e latest_settle_index = (invoices, stream_end)"
  shows "get_received_payments e latest_settle_index f =
     ((map (\<lambda>invoice.
            \<lparr> received_payment.received_payment_id = None,
              received_payment.created_time_ms = None,
              received_payment.squeak_hash = sent_offer.squeak_hash (f (invoice.r_hash invoice)),
              received_payment.payment_hash = sent_offer.payment_hash (f (invoice.r_hash invoice)),
              received_payment.price_msat = sent_offer.price_msat (f (invoice.r_hash invoice)),
              received_payment.settle_index = invoice.settle_index invoice,
              received_payment.peer_address = sent_offer.peer_address (f (invoice.r_hash invoice)) \<rparr>)
        (filter settled invoices),
      case stream_end of
        EndOfStream \<Rightarrow> None
      | StreamRaises (RpcError code) \<Rightarrow>
          if code = CANCELLED then None else Some InvoiceSubscriptionError
      | StreamRaises (OtherException msg) \<Rightarrow> Some (Raised (OtherException msg))),
      [SubscribeInvoices latest_settle_index])"
  using assms by (simp add: get_received_payments_def get_payment_stream_yields)

theorem received_payments_stream_witness:
  "get_received_payments scenario_env 42 (\<lambda>h. scenario_sent_offer) =
     (([\<lparr> received_payment.received_payment_id = None, received_payment.created_time_ms = None,
          received_payment.squeak_hash = [171, 205], received_payment.payment_hash = [205],
          received_payment.price_msat = 1000, received_payment.settle_index = 43,
          received_payment.peer_address = scenario_buyer_address \<rparr>,
        \<lparr> received_payment.received_payment_id = None, received_payment.created_time_ms = None,
          received_payment.squeak_hash = [171, 205], received_payment.payment_hash = [205],
          received_payment.price_msat = 1000, received_payment.settle_index = 44,
          received_payment.peer_address = scenario_buyer_address \<rparr>],
       None),
      [SubscribeInvoices 42])
   \<and> get_received_payments
       (scenario_env\<lparr>subscribe_invoices := \<lambda>i. ([], StreamRaises (RpcError UNAVAILABLE))\<rparr>)
       42 (\<lambda>h. scenario_sent_offer) =
     (([], Some InvoiceSubscriptionError), [SubscribeInvoices 42])"
proof -
  let ?invoices = "[\<lparr> invoice.r_hash = [205], invoice.settle_index = 43, settled = True \<rparr>,
                 \<lparr> invoice.r_hash = [206], invoice.settle_index = 0, settled = False \<rparr>,
                 \<lparr> invoice.r_hash = [205], invoice.settle_index = 44, settled = True \<rparr>]"
  let ?failing = "scenario_env\<lparr>subscribe_invoices := \<lambda>i. ([], StreamRaises (RpcError UNAVAILABLE))\<rparr>"
  have s1: "subscribe_invoices scenario_env 42 = (?invoices, StreamRaises (RpcError CANCELLED))"
    by (simp add: scenario_env_def)
  have s2: "subscribe_invoices ?failing 42 = ([], StreamRaises (RpcError UNAVAILABLE))"
    by simp
  show ?thesis
    using received_payments_stream [OF s1, of "\<lambda>h. scenario_sent_offer"]
      received_payments_stream [OF s2, of "\<lambda>h. scenario_sent_offer"]
    by (simp add: scenario_sent_offer_def)
qed

section \<open>Sent-offers verifier: properties\<close>

lemma try_processing_raises:
  "try_processing e st = Inl x \<Longrightarrow> db_get_latest_settle_index e st = Inl x"
  by (auto simp: try_processing_def Let_def split: sum.splits prod.splits if_splits)

lemma process_subscribed_invoices_returns:
  assumes "process_subscribed_invoices e st = Some r"
  shows "db_get_latest_settle_index e (snd r) = Inl (fst r)"
proof (rule process_subscribed_invoices.raw_induct
    [where P = "\<lambda>e st r. db_get_latest_settle_index e (snd r) = Inl (fst r)", OF _ assms])
  fix loop :: "verifier_env \<Rightarrow> verifier_state \<Rightarrow> (exn \<times> verifier_state) option"
    and e st r
  assume IH: "\<And>e st r. loop e st = Some r \<Longrightarrow> db_get_latest_settle_index e (snd r) = Inl (fst r)"
    and step: "(case try_processing e st of
                  Inl x \<Rightarrow> Some (x, st)
                | Inr st' \<Rightarrow> loop e st') = Some r"
  show "db_get_latest_settle_index e (snd r) = Inl (fst r)"
  proof (cases "try_processing e st")
    case (Inl x)
    then have "r = (x, st)" using step by simp
    then show ?thesis using try_processing_raises [OF Inl] by simp
  next
    case (Inr st')
    then have "loop e st' = Some r" using step by simp
    then show ?thesis by (rule IH)
  qed
qed

lemma process_subscribed_invoices_diverges:
  assumes "\<forall>s. \<exists>answer. db_get_latest_settle_index e s = Inr answer"
  shows "process_subscribed_invoices e st = None"
proof (cases "process_subscribed_invoices e st")
  case None
  then show ?thesis .
next
  case (Some r)
  then have "db_get_latest_settle_index e (snd r) = Inl (fst r)"
    by (rule process_subscribed_invoices_returns)
  then show ?thesis using assms by (metis sum.distinct(1))
qed

lemma process_invoices_slept:
  "slept_s (fst (process_invoices e st invoices stream_end)) = slept_s st"
proof (induction invoices arbitrary: st)
  case Nil
  then show ?case by (cases stream_end) simp_all
next
  case (Cons invoice invoices)
  show ?case
  proof (cases "verify_sent_offer e st invoice")
    case (Inl x)
    then show ?thesis by simp
  next
    case (Inr st')
    then have "slept_s st' = slept_s st"
      by (auto simp: verify_sent_offer_def record_payment_def Let_def
          split: if_splits sum.splits option.splits)
    then show ?thesis using Inr Cons [of st'] by simp
  qed
qed

lemma process_invoices_stream_raises:
  "snd (process_invoices e st invoices (StreamRaises x))"
  by (induction invoices arbitrary: st) (simp_all split: sum.splits)

lemma try_processing_sleeps:
  assumes "db_get_latest_settle_index e st = Inr answer"
    and "lnd_subscribe_invoices e (subscriptions st) (case answer of None \<Rightarrow> 0 | Some i \<Rightarrow> i)
           = (invoices, StreamRaises x)"
  shows "\<exists>st'. try_processing e st = Inr st' \<and> slept_s st' = slept_s st + LND_CONNECT_RETRY_S"
proof -
  let ?r = "process_invoices e (st\<lparr>subscriptions := Suc (subscriptions st)\<rparr>) invoices (StreamRaises x)"
  have raised: "snd ?r" by (rule process_invoices_stream_raises)
  have slept: "slept_s (fst ?r) = slept_s st"
    using process_invoices_slept [of e "st\<lparr>subscriptions := Suc (subscriptions st)\<rparr>"] by simp
  have "try_processing e st = Inr ((fst ?r)\<lparr>slept_s := slept_s (fst ?r) + LND_CONNECT_RETRY_S\<rparr>)"
    using assms raised by (simp add: try_processing_def Let_def split_beta)
  then show ?thesis using slept by simp
qed

text \<open>
  Claim C9, as amended. The verifier loop has no stop signal. While the storage answers
  the read of the latest settle index, \<^verbatim>\<open>process_subscribed_invoices\<close> never returns; if
  it is left at all, it is by the exception that this read raises. A round whose
  subscription raises, the error of a cancellation included, sleeps the whole
  \<^verbatim>\<open>LND_CONNECT_RETRY_S\<close> = 10 seconds and returns normally, so that the loop starts
  the next round.
\<close>

theorem verifier_loop_has_no_stop:
  "((\<forall>s. \<exists>answer. db_get_latest_settle_index e s = Inr answer) \<longrightarrow>
      process_subscribed_invoices e st = None)
   \<and> (\<forall>x st'. process_subscribed_invoices e st = Some (x, st') \<longrightarrow>
         db_get_latest_settle_index e st' = Inl x)
   \<and> (\<forall>answer invoices x.
         db_get_latest_settle_index e st = Inr answer
         \<and> lnd_subscribe_invoices e (subscriptions st) (case answer of None \<Rightarrow> 0 | Some i \<Rightarrow> i)
             = (invoices, StreamRaises x)
         \<longrightarrow> (\<exists>st'. try_processing e st = Inr st'
                \<and> slept_s st' = slept_s st + LND_CONNECT_RETRY_S))
   \<and> LND_CONNECT_RETRY_S = 10"
proof -
  have returns: "db_get_latest_settle_index e st' = Inl x"
    if "process_subscribed_invoices e st = Some (x, st')" for x st'
    using process_subscribed_invoices_returns [OF that] by simp
  show ?thesis
    using process_subscribed_invoices_diverges [of e st] returns try_processing_sleeps [of e st]
    by (simp add: LND_CONNECT_RETRY_S_def)
qed


theorem verifier_loop_has_no_stop_witness:
  "process_subscribed_invoices cancelled_env \<lparr> inserted = [], subscriptions = 0, slept_s = 0 \<rparr> = None
   \<and> (\<exists>st'. try_processing cancelled_env \<lparr> inserted = [], subscriptions = 0, slept_s = 0 \<rparr> = Inr st'
         \<and> slept_s st' = 10)
   \<and> process_subscribed_invoices
        (cancelled_env\<lparr>db_get_latest_settle_index := \<lambda>s. Inl (OtherException ''storage'')\<rparr>)
        \<lparr> inserted = [], subscriptions = 0, slept_s = 0 \<rparr>
      = Some (OtherException ''storage'', \<lparr> inserted = [], subscriptions = 0, slept_s = 0 \<rparr>)"
proof -
  let ?st = "\<lparr> inserted = [], subscriptions = 0, slept_s = 0 \<rparr>"
  note inst = verifier_loop_has_no_stop [of cancelled_env ?st]
  have answers: "\<forall>s. \<exists>answer. db_get_latest_settle_index cancelled_env s = Inr answer"
    by (simp add: cancelled_env_def)
  have loops: "process_subscribed_invoices cancelled_env ?st = None"
    using inst answers by blast
  have "db_get_latest_settle_index cancelled_env ?st = Inr None
      \<and> lnd_subscribe_invoices cancelled_env (subscriptions ?st) (case None of None \<Rightarrow> 0 | Some i \<Rightarrow> i)
          = ([], StreamRaises (RpcError CANCELLED))"
    by (simp add: cancelled_env_def)
  then have "\<exists>st'. try_processing cancelled_env ?st = Inr st'
      \<and> slept_s st' = slept_s ?st + LND_CONNECT_RETRY_S"
    using inst by blast
  then have sleeps: "\<exists>st'. try_processing cancelled_env ?st = Inr st' \<and> slept_s st' = 10"
    using inst by simp
  have returns: "process_subscribed_invoices
        (cancelled_env\<lparr>db_get_latest_settle_index := \<lambda>s. Inl (OtherException ''storage'')\<rparr>) ?st
      = Some (OtherException ''storage'', ?st)"
    by (subst process_subscribed_invoices.simps) (simp add: try_processing_def)
  show ?thesis using loops sleeps returns by blast
qed


text \<open>
  The claim as first stated asks that a requested stop cancel the subscription, cut the
  sleep short and end the worker. With every subscription cancelled at once, a round
  still sleeps 10 seconds and the loop never returns.
\<close>

theorem verifier_stop_counterexample:
  "process_subscribed_invoices cancelled_env \<lparr> inserted = [], subscriptions = 0, slept_s = 0 \<rparr> = None
   \<and> try_processing cancelled_env \<lparr> inserted = [], subscriptions = 0, slept_s = 0 \<rparr>
       = Inr \<lparr> inserted = [], subscriptions = 1, slept_s = 10 \<rparr>"
proof -
  have "\<forall>s. \<exists>answer. db_get_latest_settle_index cancelled_env s = Inr answer"
    by (simp add: cancelled_env_def)
  then have "process_subscribed_invoices cancelled_env \<lparr> inserted = [], subscriptions = 0, slept_s = 0 \<rparr> = None"
    by (rule process_subscribed_invoices_diverges)
  moreover have "try_processing cancelled_env \<lparr> inserted = [], subscriptions = 0, slept_s = 0 \<rparr>
       = Inr \<lparr> inserted = [], subscriptions = 1, slept_s = 10 \<rparr>"
    by (simp add: try_processing_def cancelled_env_def LND_CONNECT_RETRY_S_def)
  ultimately show ?thesis by blast
qed

end
